theory Spec2Isabelle
  imports Main
begin

section \<open>Values crossing the worker boundary\<close>

text \<open>
  What \<open>JSON.parse\<close> (and \<open>getJSON\<close>) can hand to the worker. Arrays and objects are
  both \<open>typeof x === 'object'\<close>; so is \<open>null\<close>, which is falsy. Numbers are kept as
  integers: the code only asks whether a value is falsy and whether it is an object.
\<close>

datatype json =
    JNull
  | JBool bool
  | JNum int
  | JStr string
  | JArr "json list"
  | JObj "(string \<times> json) list"

text \<open>\<open>!data\<close> for a value that may also be \<open>undefined\<close> (\<open>None\<close>).\<close>

fun falsy :: "json option \<Rightarrow> bool" where
  "falsy None = True"
| "falsy (Some JNull) = True"
| "falsy (Some (JBool b)) = (\<not> b)"
| "falsy (Some (JNum n)) = (n = 0)"
| "falsy (Some (JStr s)) = (s = [])"
| "falsy (Some (JArr xs)) = False"
| "falsy (Some (JObj kvs)) = False"

text \<open>\<open>typeof data === 'object'\<close>.\<close>

fun typeof_object :: "json \<Rightarrow> bool" where
  "typeof_object JNull = True"
| "typeof_object (JArr xs) = True"
| "typeof_object (JObj kvs) = True"
| "typeof_object v = False"

type_synonym callback = nat
type_synonym uid = nat

text \<open>\<open>params.tileID.canonical\<close>, with its fields \<open>z\<close>, \<open>x\<close> and \<open>y\<close>.\<close>

record canonical_id =
  tile_z :: nat
  tile_x :: nat
  tile_y :: nat

text \<open>The fields of \<open>WorkerTileParameters\<close> that the worker source reads.\<close>

record tile_params =
  tp_uid :: uid
  tp_canonical :: canonical_id

text \<open>
  The libraries the worker source calls. A call that can throw returns a sum, \<open>Inl\<close> the
  message of the exception; \<open>JSON.parse\<close> returns \<open>None\<close> when it throws, because the
  code drops that exception's message. \<open>getTile\<close> returns \<open>None\<close> for a falsy result;
  a tile holds its \<open>features\<close>, of type \<open>'t\<close>. \<open>vtpbf\<close> gives the bytes of the encoded
  tile. \<open>JSON_roundtrip\<close> is \<open>JSON.parse(JSON.stringify(x))\<close> on timing entries.
\<close>

record ('i, 't, 'b) lib =
  JSON_parse :: "string \<Rightarrow> json option"
  rewind :: "json \<Rightarrow> string + json"
  geojsonvt :: "json \<Rightarrow> json option \<Rightarrow> string + 'i"
  getTile :: "'i \<Rightarrow> nat \<Rightarrow> nat \<Rightarrow> nat \<Rightarrow> 't option"
  vtpbf :: "'t \<Rightarrow> 'b"
  JSON_roundtrip :: "string list \<Rightarrow> string + string list"

text \<open>
  The value passed to a \<open>LoadVectorDataCallback\<close>: \<open>vectorTile\<close> is the
  \<open>GeoJSONWrapper\<close> around the features, \<open>rawData\<close> the buffer holding exactly the
  bytes of \<open>vtpbf\<close> (the code copies them into a fresh array when the buffer it got is
  larger than the bytes).
\<close>

record ('t, 'b) vector_data =
  vectorTile :: 't
  rawData :: 'b

section \<open>The worker source: tile loading\<close>

text \<open>
  The module-level \<open>loadTile\<close>, with \<open>this._vectorTilePlugin\<close> as an argument. The
  result is the pair given to \<open>callback\<close>: the error and the data.
\<close>

definition loadTile ::
  "('i, 't, 'b) lib \<Rightarrow> 'i option \<Rightarrow> tile_params \<Rightarrow> string option \<times> ('t, 'b) vector_data option"
where
  "loadTile L plugin params =
     (let canonical = tp_canonical params in
      case plugin of
        None \<Rightarrow> (None, None)
      | Some p \<Rightarrow>
          (case getTile L p (tile_z canonical) (tile_x canonical) (tile_y canonical) of
             None \<Rightarrow> (None, None)
           | Some features \<Rightarrow>
               (None, Some \<lparr>vectorTile = features, rawData = vtpbf L features\<rparr>)))"

text \<open>A library over small concrete types, for evaluating the model.\<close>

definition lib0 :: "(nat, nat list, nat list) lib" where
  "lib0 =
     \<lparr>JSON_parse = (\<lambda>s. if s = ''{}'' then Some (JObj [])
                         else if s = ''0'' then Some (JNum 0)
                         else if s = ''[]'' then Some (JArr [])
                         else None),
      rewind = (\<lambda>d. Inr d),
      geojsonvt = (\<lambda>d opts. if d = JArr [] then Inl ''bad geometry'' else Inr 7),
      getTile = (\<lambda>i zz xx yy. if zz = 0 then Some [i, xx, yy] else None),
      vtpbf = (\<lambda>fs. map Suc fs),
      JSON_roundtrip = (\<lambda>entries. Inr entries)\<rparr>"


section \<open>The worker source: data loading\<close>

text \<open>
  A \<open>Cancelable\<close>: the object \<open>{cancel: () => {}}\<close> that \<open>loadGeoJSON\<close> returns, or the
  handle of a request started by \<open>getJSON\<close>.
\<close>

datatype cancelable = NoopCancel | AjaxRequest nat

record request_parameters =
  url :: string
  collectResourceTiming :: bool

text \<open>\<open>LoadGeoJSONParameters\<close>, with the fields that \<open>loadData\<close> and \<open>loadGeoJSON\<close> read.\<close>

record load_params =
  request :: "request_parameters option"
  data :: "string option"
  source :: string
  geojsonVtOptions :: "json option"

text \<open>
  The result object of a data load: \<open>{abandoned: true}\<close>, or the object that holds
  \<open>resourceTiming\<close> (a dictionary from source names to timing entries) when there is
  timing data.
\<close>

record load_result =
  resourceTiming :: "(string \<times> string list) list option"
  abandoned :: bool

definition abandoned_result :: load_result where
  "abandoned_result = \<lparr>resourceTiming = None, abandoned = True\<rparr>"

text \<open>
  What the worker source does to the world outside, in order: cancelling a request,
  entering \<open>loadGeoJSON\<close> for the call with the given callback, calling a data-load
  callback with an error and a result, calling \<open>removeSource\<close>'s callback, calling a
  tile callback, and an exception that leaves a completion handler uncaught.
\<close>

datatype ('t, 'b) wevent =
    Cancel cancelable
  | LoadGeoJSON callback
  | DataCallback callback "string option" "load_result option"
  | Ack callback
  | TileCallback callback "string option" "('t, 'b) vector_data option"
  | Uncaught string

text \<open>
  The state of a \<open>CustomVectorTileWorkerSource\<close>. \<open>loaded\<close> is the field inherited from
  \<open>VectorTileWorkerSource\<close>, keyed by the tile's \<open>uid\<close>. \<open>ajax\<close> holds the requests
  started by \<open>getJSON\<close> that can still complete, each with the parameters and the callback
  that its completion handler has captured; \<open>nextReq\<close> numbers them; \<open>out\<close> is the trace.
\<close>

record ('i, 't, 'b) worker =
  pendingCallback :: "callback option"
  pendingRequest :: "cancelable option"
  vectorTilePlugin :: "'i option"
  loaded :: "uid \<Rightarrow> ('t, 'b) vector_data option option"
  ajax :: "(nat \<times> load_params \<times> callback) list"
  nextReq :: nat
  out :: "('t, 'b) wevent list"

definition worker0 :: "('i, 't, 'b) worker" where
  "worker0 =
     \<lparr>pendingCallback = None, pendingRequest = None, vectorTilePlugin = None,
      loaded = (\<lambda>u. None), ajax = [], nextReq = 0, out = []\<rparr>"

definition emit :: "('t, 'b) wevent \<Rightarrow> ('i, 't, 'b) worker \<Rightarrow> ('i, 't, 'b) worker" where
  "emit e w = w\<lparr>out := out w @ [e]\<rparr>"

definition not_valid_geojson :: "string \<Rightarrow> string" where
  "not_valid_geojson src =
     ''Input data given to '' @ [CHR 0x27] @ src @ [CHR 0x27] @ '' is not a valid GeoJSON object.''"

text \<open>
  The completion handler that \<open>loadData\<close> passes to \<open>loadGeoJSON\<close> (lines 98 to 129),
  for the call with \<open>params\<close> and \<open>callback\<close>. \<open>finish\<close> is what \<open>perf.finish()\<close> does
  at that moment: it throws (\<open>Inl\<close>) or returns the timing entries, if there are any.
  The first component of the result is the exception the handler throws, if any:
  \<open>rewind\<close> is called outside the \<open>try\<close>, and so are \<open>perf.finish()\<close> and the JSON
  copy of the entries, which run after the new index has been stored and the loaded
  tiles have been reset.
\<close>

definition loadData_done ::
  "('i, 't, 'b) lib \<Rightarrow> load_params \<Rightarrow> callback \<Rightarrow> string + string list option \<Rightarrow>
   string option \<Rightarrow> json option \<Rightarrow> ('i, 't, 'b) worker \<Rightarrow> string option \<times> ('i, 't, 'b) worker"
where
  "loadData_done L params callback finish err data_in w =
     (let perf = (case request params of None \<Rightarrow> False | Some r \<Rightarrow> collectResourceTiming r);
          w1 = w\<lparr>pendingCallback := None, pendingRequest := None\<rparr>
      in if err \<noteq> None \<or> falsy data_in then (None, emit (DataCallback callback err None) w1)
         else
           (case data_in of
              None \<Rightarrow> (None, emit (DataCallback callback err None) w1)
            | Some d \<Rightarrow>
                if \<not> typeof_object d
                then (None, emit (DataCallback callback
                                    (Some (not_valid_geojson (source params))) None) w1)
                else
                  (case rewind L d of
                     Inl e \<Rightarrow> (Some e, w1)
                   | Inr d' \<Rightarrow>
                       (case geojsonvt L d' (geojsonVtOptions params) of
                          Inl e \<Rightarrow> (None, emit (DataCallback callback (Some e) None) w1)
                        | Inr idx \<Rightarrow>
                            (let w2 = w1\<lparr>vectorTilePlugin := Some idx, loaded := (\<lambda>u. None)\<rparr>;
                                 without = \<lparr>resourceTiming = None, abandoned = False\<rparr>
                             in if perf
                                then
                                  (case finish of
                                     Inl e \<Rightarrow> (Some e, w2)
                                   | Inr None \<Rightarrow>
                                       (None, emit (DataCallback callback None (Some without)) w2)
                                   | Inr (Some entries) \<Rightarrow>
                                       (case JSON_roundtrip L entries of
                                          Inl e \<Rightarrow> (Some e, w2)
                                        | Inr copy \<Rightarrow>
                                            (None, emit (DataCallback callback None
                                               (Some \<lparr>resourceTiming = Some [(source params, copy)],
                                                      abandoned = False\<rparr>)) w2)))
                                else (None, emit (DataCallback callback None (Some without)) w2))))))"

text \<open>
  \<open>loadGeoJSON\<close>, called by \<open>loadData\<close> with the handler above. With a request it
  starts \<open>getJSON\<close> and returns its handle; the handler runs when the request completes.
  With inline text the handler runs at once, inside a \<open>try\<close> that also catches what the
  handler throws and then runs the handler again with the error; \<open>perf\<close> is \<open>false\<close>
  then, so what \<open>perf.finish()\<close> would do does not matter. The constructor's optional
  replacement of this method is not modelled.
\<close>

definition loadGeoJSON ::
  "('i, 't, 'b) lib \<Rightarrow> load_params \<Rightarrow> callback \<Rightarrow> ('i, 't, 'b) worker \<Rightarrow>
   cancelable \<times> ('i, 't, 'b) worker"
where
  "loadGeoJSON L params callback w =
     (let invalid = Some (not_valid_geojson (source params)) in
      case request params of
        Some r \<Rightarrow>
          (AjaxRequest (nextReq w),
           w\<lparr>ajax := ajax w @ [(nextReq w, params, callback)], nextReq := Suc (nextReq w)\<rparr>)
      | None \<Rightarrow>
          (case data params of
             Some s \<Rightarrow>
               (case JSON_parse L s of
                  None \<Rightarrow> (NoopCancel, snd (loadData_done L params callback (Inr None) invalid None w))
                | Some v \<Rightarrow>
                    (case loadData_done L params callback (Inr None) None (Some v) w of
                       (None, w') \<Rightarrow> (NoopCancel, w')
                     | (Some e, w') \<Rightarrow>
                         (NoopCancel,
                          snd (loadData_done L params callback (Inr None) invalid None w'))))
           | None \<Rightarrow> (NoopCancel, snd (loadData_done L params callback (Inr None) invalid None w))))"

text \<open>
  Modelled from the spec: \<open>getJSON\<close> of \<open>util/ajax\<close> is not among the sources. The spec
  makes every outstanding call cancelable before its response arrives, and a completion
  after the cancellation is never delivered: cancelling a handle takes its request out
  of \<open>ajax\<close>.
\<close>

fun cancel :: "cancelable \<Rightarrow> ('i, 't, 'b) worker \<Rightarrow> ('i, 't, 'b) worker" where
  "cancel NoopCancel w = emit (Cancel NoopCancel) w"
| "cancel (AjaxRequest h) w =
     emit (Cancel (AjaxRequest h)) (w\<lparr>ajax := filter (\<lambda>e. fst e \<noteq> h) (ajax w)\<rparr>)"

definition loadData ::
  "('i, 't, 'b) lib \<Rightarrow> load_params \<Rightarrow> callback \<Rightarrow> ('i, 't, 'b) worker \<Rightarrow> ('i, 't, 'b) worker"
where
  "loadData L params callback w =
     (let w1 = (case pendingRequest w of None \<Rightarrow> w | Some c \<Rightarrow> cancel c w);
          w2 = (case pendingCallback w1 of
                  None \<Rightarrow> w1
                | Some pc \<Rightarrow> emit (DataCallback pc None (Some abandoned_result)) w1);
          w3 = emit (LoadGeoJSON callback) (w2\<lparr>pendingCallback := Some callback\<rparr>);
          r = loadGeoJSON L params callback w3
      in (snd r)\<lparr>pendingRequest := Some (fst r)\<rparr>)"

text \<open>
  The completion of the request with handle \<open>h\<close>, with the error and the data that
  \<open>getJSON\<close> passes to the handler. A request that is no longer in \<open>ajax\<close> does not
  complete. An exception of the handler is nobody's to catch.
\<close>

definition ajax_done ::
  "('i, 't, 'b) lib \<Rightarrow> nat \<Rightarrow> string + string list option \<Rightarrow> string option \<Rightarrow>
   json option \<Rightarrow> ('i, 't, 'b) worker \<Rightarrow> ('i, 't, 'b) worker"
where
  "ajax_done L h finish err data_in w =
     (case find (\<lambda>e. fst e = h) (ajax w) of
        None \<Rightarrow> w
      | Some (h', params, callback) \<Rightarrow>
          (case loadData_done L params callback finish err data_in
                  (w\<lparr>ajax := filter (\<lambda>e. fst e \<noteq> h) (ajax w)\<rparr>) of
             (None, w') \<Rightarrow> w'
           | (Some e, w') \<Rightarrow> emit (Uncaught e) w'))"

definition removeSource :: "callback \<Rightarrow> ('i, 't, 'b) worker \<Rightarrow> ('i, 't, 'b) worker" where
  "removeSource callback w =
     (let w1 = (case pendingCallback w of
                  None \<Rightarrow> w
                | Some pc \<Rightarrow> emit (DataCallback pc None (Some abandoned_result)) w)
      in emit (Ack callback) w1)"

text \<open>
  Modelled from the spec: the methods \<open>loadTile\<close> and \<open>reloadTile\<close> of the base class
  \<open>VectorTileWorkerSource\<close> are not among the sources. By the spec, loading a tile reads
  the slice through the function given to the constructor (the module-level \<open>loadTile\<close>),
  marks the tile present in the set of loaded tiles and returns the encoded tile;
  reloading a tile that is present encodes it again and leaves the index as it is.
\<close>

definition base_loadTile ::
  "('i, 't, 'b) lib \<Rightarrow> tile_params \<Rightarrow> callback \<Rightarrow> ('i, 't, 'b) worker \<Rightarrow> ('i, 't, 'b) worker"
where
  "base_loadTile L params callback w =
     (let r = loadTile L (vectorTilePlugin w) params
      in emit (TileCallback callback (fst r) (snd r))
           (w\<lparr>loaded := (loaded w)(tp_uid params := Some (snd r))\<rparr>))"

text \<open>
  Modelled from the spec: \<open>reloadTile\<close> of the base class, for a tile that is among the
  loaded tiles: an idempotent re-encode that does not touch the index.
\<close>

definition super_reloadTile ::
  "tile_params \<Rightarrow> callback \<Rightarrow> ('i, 't, 'b) worker \<Rightarrow> ('i, 't, 'b) worker"
where
  "super_reloadTile params callback w =
     (case loaded w (tp_uid params) of
        None \<Rightarrow> w
      | Some t \<Rightarrow> emit (TileCallback callback None t) w)"

text \<open>\<open>reloadTile\<close> of the worker source (lines 132 to 141).\<close>

definition reloadTile ::
  "('i, 't, 'b) lib \<Rightarrow> tile_params \<Rightarrow> callback \<Rightarrow> ('i, 't, 'b) worker \<Rightarrow> ('i, 't, 'b) worker"
where
  "reloadTile L params callback w =
     (let uid = tp_uid params in
      if loaded w uid \<noteq> None then super_reloadTile params callback w
      else base_loadTile L params callback w)"

text \<open>The messages a worker source receives, and the completions of its requests.\<close>

datatype wop =
    LoadData load_params callback
  | AjaxDone nat "string + string list option" "string option" "json option"
  | RemoveSource callback
  | LoadTile tile_params callback
  | ReloadTile tile_params callback

fun wstep :: "('i, 't, 'b) lib \<Rightarrow> wop \<Rightarrow> ('i, 't, 'b) worker \<Rightarrow> ('i, 't, 'b) worker" where
  "wstep L (LoadData params callback) w = loadData L params callback w"
| "wstep L (AjaxDone h finish err d) w = ajax_done L h finish err d w"
| "wstep L (RemoveSource callback) w = removeSource callback w"
| "wstep L (LoadTile params callback) w = base_loadTile L params callback w"
| "wstep L (ReloadTile params callback) w = reloadTile L params callback w"

fun wrun :: "('i, 't, 'b) lib \<Rightarrow> wop list \<Rightarrow> ('i, 't, 'b) worker \<Rightarrow> ('i, 't, 'b) worker" where
  "wrun L [] w = w"
| "wrun L (op # ops) w = wrun L ops (wstep L op w)"

text \<open>
  A trace is fresh when every data-load callback that is not told \<open>{abandoned: true}\<close>
  belongs to the call for which \<open>loadGeoJSON\<close> was entered last. \<open>cur\<close> is that call's
  callback at the start of the trace.
\<close>

definition is_abandoned :: "load_result option \<Rightarrow> bool" where
  "is_abandoned res = (case res of None \<Rightarrow> False | Some r \<Rightarrow> abandoned r)"

fun fresh :: "callback option \<Rightarrow> ('t, 'b) wevent list \<Rightarrow> bool" where
  "fresh cur [] = True"
| "fresh cur (LoadGeoJSON c # es) = fresh (Some c) es"
| "fresh cur (DataCallback c err res # es) = ((is_abandoned res \<or> cur = Some c) \<and> fresh cur es)"
| "fresh cur (e # es) = fresh cur es"

fun latest :: "callback option \<Rightarrow> ('t, 'b) wevent list \<Rightarrow> callback option" where
  "latest cur [] = cur"
| "latest cur (LoadGeoJSON c # es) = latest (Some c) es"
| "latest cur (e # es) = latest cur es"

section \<open>The source on the main thread\<close>

text \<open>\<open>MapSourceDataType\<close>.\<close>

datatype source_data_type = Metadata | Content

text \<open>\<open>_data\<close>: a URL (\<open>typeof data === 'string'\<close>) or a GeoJSON object.\<close>

datatype source_data = DataUrl string | DataObject json

text \<open>
  What \<open>_updateWorkerData\<close> takes from its surroundings: \<open>transformRequest\<close> stands for
  \<open>this.map._requestManager.transformRequest(browser.resolveURL(data), ResourceType.Source)\<close>
  and gives the request's URL. The field \<open>map\<close> is declared as a \<open>Map\<close>, so it is taken
  to be set.
\<close>

record host =
  transformRequest :: "string \<Rightarrow> string"
  JSON_stringify :: "json \<Rightarrow> string"

text \<open>The events that the source fires: \<open>dataloading\<close>, \<open>dataabort\<close>, an \<open>ErrorEvent\<close>, \<open>data\<close>.\<close>

datatype event =
    DataLoading
  | DataAbort source_data_type
  | ErrorEvent string
  | DataEvent source_data_type "string list option"

text \<open>
  What the source does besides changing its fields, in order: firing an event, calling
  the callback given to \<open>loadTile\<close> with an error or \<open>null\<close>, the calls
  \<open>tile.unloadVectorData()\<close> and \<open>tile.loadVectorData(data, painter, reload)\<close>,
  \<open>console.log('res', res)\<close> and \<open>console.error\<close>.
\<close>

datatype ('d, 's) effect =
    Fire event
  | Done callback "string option"
  | UnloadVectorData uid
  | LoadVectorData uid "'d option" bool
  | ConsoleLog "'s option"
  | ConsoleError string

text \<open>
  The messages given to \<open>actor.send\<close>. A tile message is \<open>loadTile\<close> or \<open>reloadTile\<close>
  (\<open>True\<close>); its parameters are cut down to the fields the worker source reads. The
  cancel message is what the handle returned by \<open>send\<close> posts.
\<close>

datatype message =
    LoadDataMsg load_params
  | TileMsg bool tile_params
  | RemoveTileMsg uid
  | RemoveSourceMsg
  | CancelMsg

text \<open>
  A callback registered with the actor: the one of \<open>_updateWorkerData\<close>, which has
  captured \<open>sourceDataType\<close>, or the one of \<open>loadTile\<close>, which has captured the tile, the
  message and the caller's callback.
\<close>

datatype continuation =
    LoadDataK source_data_type
  | TileK uid bool callback

text \<open>
  The fields of a \<open>Tile\<close> that the source reads and writes. \<open>tile_actor\<close> says whether
  \<open>tile.actor\<close> is set, \<open>tile_request\<close> is the handle in \<open>tile.request\<close>. The class
  \<open>Tile\<close> is not among the sources; \<open>vector\<close> is the data the tile holds, which
  \<open>unloadVectorData\<close> discards and \<open>loadVectorData\<close> replaces, and both calls are
  recorded as effects.
\<close>

record 'd tile =
  tileID :: canonical_id
  tile_actor :: bool
  tile_request :: "nat option"
  aborted_tile :: bool
  vector :: "'d option"

text \<open>
  The state of a \<open>CustomVectorTileSource\<close>, the tiles it is handed (by \<open>uid\<close>), the
  module's variable \<open>planet\<close> (its \<open>getTile\<close>), and the actor: the messages sent, the
  callbacks registered and the next message id.
\<close>

record ('d, 's) coordinator =
  sid :: string
  maxzoom :: nat
  c_data :: source_data
  workerOptions :: load_params
  collectTiming :: bool
  pendingLoads :: int
  removed :: bool
  planet :: "(nat \<Rightarrow> nat \<Rightarrow> nat \<Rightarrow> 's option) option"
  tiles :: "uid \<Rightarrow> 'd tile"
  effects :: "('d, 's) effect list"
  sent :: "(nat \<times> message) list"
  callbacks :: "(nat \<times> continuation) list"
  nextId :: nat

text \<open>
  The constructor, for the options \<open>data\<close>, \<open>maxzoom\<close> and \<open>collectResourceTiming\<close>. The
  options for \<open>geojson-vt\<close> are taken as built (the buffer and the tolerance are scaled
  in floating point). No tile has been handed to the source yet.
\<close>

definition constructor ::
  "string \<Rightarrow> source_data \<Rightarrow> nat option \<Rightarrow> bool \<Rightarrow> json option \<Rightarrow>
   (nat \<Rightarrow> nat \<Rightarrow> nat \<Rightarrow> 's option) option \<Rightarrow> (uid \<Rightarrow> canonical_id) \<Rightarrow> ('d, 's) coordinator"
where
  "constructor ident d mz collect vtopts pl ids =
     \<lparr>sid = ident,
      maxzoom = (case mz of None \<Rightarrow> 18 | Some m \<Rightarrow> m),
      c_data = d,
      workerOptions = \<lparr>request = None, data = None, source = ident, geojsonVtOptions = vtopts\<rparr>,
      collectTiming = collect,
      pendingLoads = 0,
      removed = False,
      planet = pl,
      tiles = (\<lambda>u. \<lparr>tileID = ids u, tile_actor = False, tile_request = None,
                      aborted_tile = False, vector = None\<rparr>),
      effects = (case pl of None \<Rightarrow> [ConsoleError ''planet-node is missing''] | Some g \<Rightarrow> []),
      sent = [],
      callbacks = [],
      nextId = 0\<rparr>"

definition effect :: "('d, 's) effect \<Rightarrow> ('d, 's) coordinator \<Rightarrow> ('d, 's) coordinator" where
  "effect e s = s\<lparr>effects := effects s @ [e]\<rparr>"

text \<open>The events fired so far.\<close>

fun fired :: "('d, 's) effect list \<Rightarrow> event list" where
  "fired [] = []"
| "fired (Fire e # es) = e # fired es"
| "fired (e # es) = fired es"

text \<open>
  Modelled from the spec: the \<open>Actor\<close> of \<open>util/actor\<close> is not among the sources. By the
  spec every request has its own response and its own cancel handle, and a completion
  after a cancellation is never delivered: \<open>send\<close> registers the callback under a new
  id, the handle's \<open>cancel\<close> unregisters it, and a response is given to the callback
  registered under its id, which is then unregistered.
\<close>

definition send ::
  "message \<Rightarrow> continuation option \<Rightarrow> ('d, 's) coordinator \<Rightarrow> nat \<times> ('d, 's) coordinator"
where
  "send m k s =
     (nextId s,
      s\<lparr>sent := sent s @ [(nextId s, m)],
        callbacks := (case k of None \<Rightarrow> callbacks s | Some c \<Rightarrow> callbacks s @ [(nextId s, c)]),
        nextId := Suc (nextId s)\<rparr>)"

text \<open>
  Modelled from the spec: \<open>cancel\<close> of the handle that the actor's \<open>send\<close> returns.
\<close>

definition cancel_request :: "nat \<Rightarrow> ('d, 's) coordinator \<Rightarrow> ('d, 's) coordinator" where
  "cancel_request i s =
     s\<lparr>callbacks := filter (\<lambda>e. fst e \<noteq> i) (callbacks s), sent := sent s @ [(i, CancelMsg)]\<rparr>"

text \<open>The callback that \<open>_updateWorkerData\<close> gives to \<open>actor.send\<close> (lines 143 to 165).\<close>

definition loadData_response ::
  "source_data_type \<Rightarrow> string option \<Rightarrow> load_result option \<Rightarrow>
   ('d, 's) coordinator \<Rightarrow> ('d, 's) coordinator"
where
  "loadData_response sourceDataType err result s =
     (let s1 = s\<lparr>pendingLoads := pendingLoads s - 1\<rparr> in
      if removed s1 \<or> is_abandoned result then effect (Fire (DataAbort sourceDataType)) s1
      else
        (let timing =
               (case result of
                  None \<Rightarrow> None
                | Some r \<Rightarrow>
                    (case resourceTiming r of
                       None \<Rightarrow> None
                     | Some dict \<Rightarrow> map_of dict (sid s1)))
         in case err of
              Some e \<Rightarrow> effect (Fire (ErrorEvent e)) s1
            | None \<Rightarrow>
                effect (Fire (DataEvent sourceDataType
                  (case timing of
                     None \<Rightarrow> None
                   | Some entries \<Rightarrow>
                       if collectTiming s1 \<and> 0 < length entries then Some entries else None)))
                  s1))"

definition updateWorkerData ::
  "host \<Rightarrow> source_data_type \<Rightarrow> ('d, 's) coordinator \<Rightarrow> ('d, 's) coordinator"
where
  "updateWorkerData H sourceDataType s =
     (let options =
            (case c_data s of
               DataUrl u \<Rightarrow>
                 (workerOptions s)\<lparr>request :=
                    Some \<lparr>url = transformRequest H u, collectResourceTiming = collectTiming s\<rparr>\<rparr>
             | DataObject g \<Rightarrow> (workerOptions s)\<lparr>data := Some (JSON_stringify H g)\<rparr>);
          s1 = s\<lparr>pendingLoads := pendingLoads s + 1\<rparr>;
          s2 = effect (Fire DataLoading) s1
      in snd (send (LoadDataMsg options) (Some (LoadDataK sourceDataType)) s2))"

definition load :: "host \<Rightarrow> ('d, 's) coordinator \<Rightarrow> ('d, 's) coordinator" where
  "load H s = updateWorkerData H Metadata s"

definition onAdd :: "host \<Rightarrow> ('d, 's) coordinator \<Rightarrow> ('d, 's) coordinator" where
  "onAdd H s = load H s"

definition setData :: "host \<Rightarrow> source_data \<Rightarrow> ('d, 's) coordinator \<Rightarrow> ('d, 's) coordinator" where
  "setData H d s = updateWorkerData H Content (s\<lparr>c_data := d\<rparr>)"

text \<open>\<open>loaded()\<close>.\<close>

definition source_loaded :: "('d, 's) coordinator \<Rightarrow> bool" where
  "source_loaded s = (pendingLoads s = 0)"

definition set_tile :: "uid \<Rightarrow> 'd tile \<Rightarrow> ('d, 's) coordinator \<Rightarrow> ('d, 's) coordinator" where
  "set_tile u t s = s\<lparr>tiles := (tiles s)(u := t)\<rparr>"

text \<open>
  The callback that the source's \<open>loadTile\<close> gives to \<open>actor.send\<close> (lines 200 to 215),
  for the tile \<open>u\<close>, the message (\<open>reload\<close>) and the caller's \<open>callback\<close>.
\<close>

definition tile_response ::
  "uid \<Rightarrow> bool \<Rightarrow> callback \<Rightarrow> string option \<Rightarrow> 'd option \<Rightarrow>
   ('d, 's) coordinator \<Rightarrow> ('d, 's) coordinator"
where
  "tile_response u reload callback err d s =
     (let t1 = (tiles s u)\<lparr>tile_request := None\<rparr>;
          t2 = t1\<lparr>vector := None\<rparr>;
          s2 = effect (UnloadVectorData u) (set_tile u t2 s)
      in if aborted_tile t2 then effect (Done callback None) s2
         else
           (case err of
              Some e \<Rightarrow> effect (Done callback (Some e)) s2
            | None \<Rightarrow>
                effect (Done callback None)
                  (effect (LoadVectorData u d reload) (set_tile u (t2\<lparr>vector := d\<rparr>) s2))))"

text \<open>\<open>loadTile\<close> of the source (lines 173 to 216).\<close>

definition source_loadTile ::
  "uid \<Rightarrow> callback \<Rightarrow> ('d, 's) coordinator \<Rightarrow> ('d, 's) coordinator"
where
  "source_loadTile u callback s =
     (let t = tiles s u;
          reload = tile_actor t;
          s1 = set_tile u (t\<lparr>tile_actor := True\<rparr>) s;
          params = \<lparr>tp_uid = u, tp_canonical = tileID t\<rparr>;
          s2 = (case planet s1 of
                  None \<Rightarrow> s1
                | Some get \<Rightarrow>
                    effect (ConsoleLog (get (tile_z (tileID t)) (tile_x (tileID t))
                              (tile_y (tileID t)))) s1);
          r = send (TileMsg reload params) (Some (TileK u reload callback)) s2
      in set_tile u ((tiles (snd r) u)\<lparr>tile_request := Some (fst r)\<rparr>) (snd r))"

definition abortTile :: "uid \<Rightarrow> ('d, 's) coordinator \<Rightarrow> ('d, 's) coordinator" where
  "abortTile u s =
     (let s1 = (case tile_request (tiles s u) of
                  None \<Rightarrow> s
                | Some i \<Rightarrow> set_tile u ((tiles s u)\<lparr>tile_request := None\<rparr>) (cancel_request i s))
      in set_tile u ((tiles s1 u)\<lparr>aborted_tile := True\<rparr>) s1)"

definition unloadTile :: "uid \<Rightarrow> ('d, 's) coordinator \<Rightarrow> ('d, 's) coordinator" where
  "unloadTile u s =
     (let s1 = effect (UnloadVectorData u) (set_tile u ((tiles s u)\<lparr>vector := None\<rparr>) s)
      in snd (send (RemoveTileMsg u) None s1))"

definition onRemove :: "('d, 's) coordinator \<Rightarrow> ('d, 's) coordinator" where
  "onRemove s = snd (send RemoveSourceMsg None (s\<lparr>removed := True\<rparr>))"

text \<open>The calls made on the source, and the responses that the actor delivers.\<close>

datatype 'd cop =
    OnAdd
  | SetData source_data
  | SourceLoadTile uid callback
  | AbortTile uid
  | UnloadTile uid
  | OnRemove
  | DataResponse nat "string option" "load_result option"
  | TileResponse nat "string option" "'d option"

text \<open>
  Modelled from the spec: how the actor delivers a response. The callback registered
  under the response's id is unregistered and run; a response whose id has no callback
  (any more) is dropped.
\<close>

definition unregister :: "nat \<Rightarrow> ('d, 's) coordinator \<Rightarrow> ('d, 's) coordinator" where
  "unregister i s = s\<lparr>callbacks := filter (\<lambda>e. fst e \<noteq> i) (callbacks s)\<rparr>"

fun cstep :: "host \<Rightarrow> 'd cop \<Rightarrow> ('d, 's) coordinator \<Rightarrow> ('d, 's) coordinator" where
  "cstep H OnAdd s = onAdd H s"
| "cstep H (SetData d) s = setData H d s"
| "cstep H (SourceLoadTile u callback) s = source_loadTile u callback s"
| "cstep H (AbortTile u) s = abortTile u s"
| "cstep H (UnloadTile u) s = unloadTile u s"
| "cstep H OnRemove s = onRemove s"
| "cstep H (DataResponse i err result) s =
     (case map_of (callbacks s) i of
        Some (LoadDataK sourceDataType) \<Rightarrow>
          loadData_response sourceDataType err result (unregister i s)
      | _ \<Rightarrow> s)"
| "cstep H (TileResponse i err d) s =
     (case map_of (callbacks s) i of
        Some (TileK u reload callback) \<Rightarrow> tile_response u reload callback err d (unregister i s)
      | _ \<Rightarrow> s)"

fun crun :: "host \<Rightarrow> 'd cop list \<Rightarrow> ('d, 's) coordinator \<Rightarrow> ('d, 's) coordinator" where
  "crun H [] s = s"
| "crun H (op # ops) s = crun H ops (cstep H op s)"

text \<open>The data loads that have been dispatched and have not had their response.\<close>

fun is_load :: "nat \<times> continuation \<Rightarrow> bool" where
  "is_load (i, LoadDataK t) = True"
| "is_load (i, TileK u r c) = False"

definition outstanding :: "('d, 's) coordinator \<Rightarrow> nat" where
  "outstanding s = length (filter is_load (callbacks s))"

fun is_completion :: "event \<Rightarrow> bool" where
  "is_completion DataLoading = False"
| "is_completion e = True"

definition host0 :: host where
  "host0 = \<lparr>transformRequest = (\<lambda>u. u),
             JSON_stringify = (\<lambda>g. if g = JArr [] then ''[]'' else ''{}'')\<rparr>"

section \<open>Invariants and sample inputs\<close>

text \<open>The completion handler calls the callback of its own call, at most once.\<close>

definition done_events :: "callback \<Rightarrow> ('t, 'b) wevent list \<Rightarrow> bool" where
  "done_events c evs = (evs = [] \<or> (\<exists>er r. evs = [DataCallback c er r]))"

text \<open>
  The events with which \<open>loadData\<close> starts: the cancellation of the pending request, the
  abandonment of the pending callback, and then the entry into \<open>loadGeoJSON\<close>.
\<close>

definition preamble :: "('i, 't, 'b) worker \<Rightarrow> callback \<Rightarrow> ('t, 'b) wevent list" where
  "preamble w c =
     (case pendingRequest w of None \<Rightarrow> [] | Some h \<Rightarrow> [Cancel h]) @
     (case pendingCallback w of None \<Rightarrow> []
      | Some pc \<Rightarrow> [DataCallback pc None (Some abandoned_result)]) @
     [LoadGeoJSON c]"

text \<open>
  The invariant of a worker source: its trace is fresh, and a request that can still
  complete is the pending request, made by the call whose callback is pending and for
  which \<open>loadGeoJSON\<close> was entered last.
\<close>

definition winv :: "('i, 't, 'b) worker \<Rightarrow> bool" where
  "winv w = (fresh None (out w) \<and>
     (\<forall>e \<in> set (ajax w). pendingRequest w = Some (AjaxRequest (fst e)) \<and>
         pendingCallback w = Some (snd (snd e)) \<and> latest None (out w) = Some (snd (snd e))))"



text \<open>The \<open>dataloading\<close> events and the completion events fired so far.\<close>

definition loads :: "('d, 's) coordinator \<Rightarrow> nat" where
  "loads s = length (filter (\<lambda>e. e = DataLoading) (fired (effects s)))"

definition completions :: "('d, 's) coordinator \<Rightarrow> nat" where
  "completions s = length (filter is_completion (fired (effects s)))"

text \<open>
  The invariant of a source: the ids of the registered callbacks are distinct and below
  the next id, a tile's request is never the id of a data load, and the counter is both
  the number of outstanding data loads and the difference of the two event counts.
\<close>

definition cinv :: "('d, 's) coordinator \<Rightarrow> bool" where
  "cinv s = (distinct (map fst (callbacks s)) \<and> (\<forall>e \<in> set (callbacks s). fst e < nextId s) \<and>
     (\<forall>u i. tile_request (tiles s u) = Some i \<longrightarrow>
        i < nextId s \<and> (\<forall>k. map_of (callbacks s) i = Some k \<longrightarrow> \<not> is_load (i, k))) \<and>
     pendingLoads s = int (outstanding s) \<and>
     pendingLoads s = int (loads s) - int (completions s))"

text \<open>Inputs for evaluating the model: parameters with inline text and with a request.\<close>

definition inline0 :: load_params where
  "inline0 = \<lparr>request = None, data = Some ''{}'', source = ''s'', geojsonVtOptions = None\<rparr>"

definition remote0 :: load_params where
  "remote0 = \<lparr>request = Some \<lparr>url = ''u'', collectResourceTiming = False\<rparr>, data = None,
     source = ''s'', geojsonVtOptions = None\<rparr>"

definition bad0 :: load_params where
  "bad0 = \<lparr>request = None, data = Some ''[]'', source = ''s'', geojsonVtOptions = None\<rparr>"

definition tile0 :: tile_params where
  "tile0 = \<lparr>tp_uid = 1, tp_canonical = \<lparr>tile_z = 0, tile_x = 2, tile_y = 3\<rparr>\<rparr>"

definition source0 :: "(nat, nat) coordinator" where
  "source0 = constructor ''s'' (DataObject (JObj [])) None False None
     (Some (\<lambda>zz xx yy. Some 5)) (\<lambda>u. \<lparr>tile_z = 0, tile_x = 0, tile_y = 0\<rparr>)"

section \<open>Facts about the worker source\<close>

lemma emit_simps [simp]:
  "out (emit e w) = out w @ [e]"
  "ajax (emit e w) = ajax w"
  "nextReq (emit e w) = nextReq w"
  "pendingCallback (emit e w) = pendingCallback w"
  "pendingRequest (emit e w) = pendingRequest w"
  "vectorTilePlugin (emit e w) = vectorTilePlugin w"
  "loaded (emit e w) = loaded w"
  by (simp_all add: emit_def)

lemma cancel_simps [simp]:
  "out (cancel c w) = out w @ [Cancel c]"
  "nextReq (cancel c w) = nextReq w"
  "pendingCallback (cancel c w) = pendingCallback w"
  "pendingRequest (cancel c w) = pendingRequest w"
  "vectorTilePlugin (cancel c w) = vectorTilePlugin w"
  "loaded (cancel c w) = loaded w"
  by (cases c; simp)+

lemma ajax_cancel:
  "ajax (cancel c w) =
     (case c of NoopCancel \<Rightarrow> ajax w | AjaxRequest h \<Rightarrow> filter (\<lambda>e. fst e \<noteq> h) (ajax w))"
  by (cases c) simp_all

lemma fresh_append: "fresh cur (xs @ ys) = (fresh cur xs \<and> fresh (latest cur xs) ys)"
  by (induction cur xs rule: fresh.induct) auto

lemma latest_append: "latest cur (xs @ ys) = latest (latest cur xs) ys"
  by (induction cur xs rule: latest.induct) auto

lemma loadData_done_shape:
  assumes "loadData_done L p c f er d w = (t, w')"
  shows "(\<exists>evs. out w' = out w @ evs \<and> done_events c evs) \<and> ajax w' = ajax w \<and>
         nextReq w' = nextReq w \<and> pendingCallback w' = None \<and> pendingRequest w' = None"
  using assms
  by (auto simp: loadData_done_def Let_def done_events_def split: if_splits option.splits sum.splits)

lemma done_events_fresh: "done_events c evs \<Longrightarrow> fresh (Some c) evs"
  by (auto simp: done_events_def)

lemma done_events_latest: "done_events c evs \<Longrightarrow> latest cur evs = cur"
  by (auto simp: done_events_def)

lemma loadGeoJSON_sync:
  assumes "request p = None" "loadGeoJSON L p c w = (h, w')"
  shows "h = NoopCancel \<and> (\<exists>evs. out w' = out w @ evs \<and> fresh (Some c) evs \<and> (\<forall>cur. latest cur evs = cur)) \<and> ajax w' = ajax w"
proof -
  have two: "\<exists>evs. out w2 = out w @ evs \<and> fresh (Some c) evs \<and> (\<forall>cur. latest cur evs = cur)" "ajax w2 = ajax w"
    if a: "loadData_done L p c f1 e1 d1 w = (t1, w1)" and b: "loadData_done L p c f2 e2 d2 w1 = (t2, w2)"
    for f1 e1 d1 t1 w1 f2 e2 d2 t2 w2
  proof -
    from loadData_done_shape[OF a] obtain ev1 where 1: "out w1 = out w @ ev1" "done_events c ev1" "ajax w1 = ajax w" by blast
    from loadData_done_shape[OF b] obtain ev2 where 2: "out w2 = out w1 @ ev2" "done_events c ev2" "ajax w2 = ajax w1" by blast
    show "\<exists>evs. out w2 = out w @ evs \<and> fresh (Some c) evs \<and> (\<forall>cur. latest cur evs = cur)"
      using 1 2 by (intro exI[of _ "ev1 @ ev2"]) (simp add: fresh_append latest_append done_events_fresh done_events_latest)
    show "ajax w2 = ajax w" using 1 2 by simp
  qed
  have one: "\<exists>evs. out w1 = out w @ evs \<and> fresh (Some c) evs \<and> (\<forall>cur. latest cur evs = cur)" "ajax w1 = ajax w"
    if a: "loadData_done L p c f1 e1 d1 w = (t1, w1)" for f1 e1 d1 t1 w1
    using loadData_done_shape[OF a] done_events_fresh done_events_latest by blast+
  show ?thesis
    using assms
    apply (simp add: loadGeoJSON_def Let_def split: option.splits prod.splits)
    by (metis one two prod.collapse)+
qed

lemma winv_cancel_ajax:
  assumes "winv w"
  shows "ajax (case pendingRequest w of None \<Rightarrow> w | Some c \<Rightarrow> cancel c w) = []"
proof -
  from assms have all: "\<And>e'. e' \<in> set (ajax w) \<Longrightarrow> pendingRequest w = Some (AjaxRequest (fst e'))"
    unfolding winv_def by blast
  show ?thesis
  proof (cases "ajax w")
    case Nil
    then show ?thesis by (auto simp: ajax_cancel split: option.splits cancelable.splits)
  next
    case (Cons e es)
    then have pr: "pendingRequest w = Some (AjaxRequest (fst e))" using all by simp
    have "\<And>e'. e' \<in> set (ajax w) \<Longrightarrow> fst e' = fst e" using all pr by fastforce
    then have "filter (\<lambda>e'. fst e' \<noteq> fst e) (ajax w) = []" by (simp add: filter_empty_conv)
    with pr show ?thesis by (simp add: ajax_cancel)
  qed
qed

lemma preamble_fresh: "fresh cur (preamble w c)"
  by (auto simp: preamble_def is_abandoned_def abandoned_result_def split: option.splits)

lemma preamble_latest: "latest cur (preamble w c) = Some c"
  by (auto simp: preamble_def split: option.splits)

lemma loadData_out:
  "\<exists>rest. out (loadData L p c w) = out w @ preamble w c @ rest \<and> fresh (Some c) rest \<and>
     (\<forall>cur. latest cur rest = cur)"
proof (cases "request p")
  case None
  obtain h w' where r: "loadGeoJSON L p c (emit (LoadGeoJSON c)
       ((case pendingCallback (case pendingRequest w of None \<Rightarrow> w | Some c \<Rightarrow> cancel c w) of
           None \<Rightarrow> (case pendingRequest w of None \<Rightarrow> w | Some c \<Rightarrow> cancel c w)
         | Some pc \<Rightarrow> emit (DataCallback pc None (Some abandoned_result))
              (case pendingRequest w of None \<Rightarrow> w | Some c \<Rightarrow> cancel c w))
        \<lparr>pendingCallback := Some c\<rparr>)) = (h, w')"
    by (meson surj_pair)
  from loadGeoJSON_sync[OF None r] show ?thesis
    using r by (auto simp: loadData_def Let_def preamble_def split: option.splits)
next
  case (Some r)
  then show ?thesis
    by (auto simp: loadData_def loadGeoJSON_def Let_def preamble_def split: option.splits)
qed

lemma winvI:
  assumes "fresh None (out w)" "ajax w = [] \<or> (\<exists>h p c. ajax w = [(h, p, c)] \<and>
     pendingRequest w = Some (AjaxRequest h) \<and> pendingCallback w = Some c \<and> latest None (out w) = Some c)"
  shows "winv w"
  using assms by (auto simp: winv_def)

lemma loadData_fields:
  assumes "winv w"
  shows "case request p of
           None \<Rightarrow> ajax (loadData L p c w) = []
         | Some r \<Rightarrow> ajax (loadData L p c w) = [(nextReq w, p, c)] \<and>
             pendingRequest (loadData L p c w) = Some (AjaxRequest (nextReq w)) \<and>
             pendingCallback (loadData L p c w) = Some c"
proof (cases "request p")
  case None
  let ?w1 = "case pendingRequest w of None \<Rightarrow> w | Some c \<Rightarrow> cancel c w"
  let ?w3 = "emit (LoadGeoJSON c)
       ((case pendingCallback ?w1 of None \<Rightarrow> ?w1
         | Some pc \<Rightarrow> emit (DataCallback pc None (Some abandoned_result)) ?w1)
        \<lparr>pendingCallback := Some c\<rparr>)"
  have a3: "ajax ?w3 = []"
    using winv_cancel_ajax[OF assms] by (simp split: option.splits)
  obtain h w' where r: "loadGeoJSON L p c ?w3 = (h, w')" by (meson surj_pair)
  from loadGeoJSON_sync[OF None r] a3 have "ajax w' = []" by simp
  then show ?thesis using None r by (simp add: loadData_def Let_def)
next
  case (Some r)
  let ?w1 = "case pendingRequest w of None \<Rightarrow> w | Some c \<Rightarrow> cancel c w"
  have "ajax ?w1 = []" by (rule winv_cancel_ajax[OF assms])
  moreover have "nextReq ?w1 = nextReq w" by (simp split: option.splits)
  ultimately show ?thesis using Some
    by (simp add: loadData_def loadGeoJSON_def Let_def split: option.splits)
qed

lemma winv_loadData:
  assumes "winv w"
  shows "winv (loadData L p c w)"
proof -
  obtain rest where o: "out (loadData L p c w) = out w @ preamble w c @ rest"
      "fresh (Some c) rest" "\<And>cur. latest cur rest = cur"
    using loadData_out by blast
  from assms have f0: "fresh None (out w)" by (simp add: winv_def)
  have f: "fresh None (out (loadData L p c w))"
    using o f0 by (simp add: fresh_append latest_append preamble_fresh preamble_latest)
  have l: "latest None (out (loadData L p c w)) = Some c"
    using o by (simp add: latest_append preamble_latest)
  show ?thesis
    using loadData_fields[OF assms, where p=p and L=L and c=c] f l
    by (intro winvI) (auto split: option.splits)
qed

lemma winv_ajax_done:
  assumes "winv w"
  shows "winv (ajax_done L h f er d w)"
proof (cases "find (\<lambda>e. fst e = h) (ajax w)")
  case None
  then show ?thesis using assms by (simp add: ajax_done_def)
next
  case (Some e)
  obtain h' p c where e: "e = (h', p, c)" by (cases e) auto
  from Some have mem: "e \<in> set (ajax w)" and fh: "fst e = h"
    by (auto simp: find_Some_iff in_set_conv_nth)
  from assms mem e have pr: "pendingRequest w = Some (AjaxRequest h')"
    and lt: "latest None (out w) = Some c" and f0: "fresh None (out w)"
    by (auto simp: winv_def)
  from assms have all: "\<And>e'. e' \<in> set (ajax w) \<Longrightarrow> pendingRequest w = Some (AjaxRequest (fst e'))"
    unfolding winv_def by blast
  have "\<And>e'. e' \<in> set (ajax w) \<Longrightarrow> fst e' = h" using all pr fh e by fastforce
  then have emp: "filter (\<lambda>e. fst e \<noteq> h) (ajax w) = []" by (simp add: filter_empty_conv)
  obtain t w' where r: "loadData_done L p c f er d (w\<lparr>ajax := []\<rparr>) = (t, w')" by (meson surj_pair)
  from loadData_done_shape[OF r] obtain evs where s: "out w' = out w @ evs" "done_events c evs" "ajax w' = []"
    by auto
  have w': "winv w'"
    using s f0 lt by (intro winvI) (simp_all add: fresh_append done_events_fresh)
  have "ajax_done L h f er d w = (case t of None \<Rightarrow> w' | Some x \<Rightarrow> emit (Uncaught x) w')"
    using Some e emp r by (simp add: ajax_done_def split: option.splits)
  moreover have "winv (emit (Uncaught x) w')" for x
    using w' s by (intro winvI) (simp_all add: fresh_append winv_def)
  ultimately show ?thesis using w' by (simp split: option.splits)
qed

lemma winv_removeSource: "winv w \<Longrightarrow> winv (removeSource c w)"
  by (auto simp: winv_def removeSource_def Let_def fresh_append latest_append is_abandoned_def
        abandoned_result_def split: option.splits)

lemma winv_base_loadTile: "winv w \<Longrightarrow> winv (base_loadTile L p c w)"
  by (auto simp: winv_def base_loadTile_def Let_def fresh_append latest_append)

lemma winv_reloadTile: "winv w \<Longrightarrow> winv (reloadTile L p c w)"
  using winv_base_loadTile[of w L p c]
  by (auto simp: winv_def reloadTile_def super_reloadTile_def Let_def fresh_append latest_append
        split: option.splits)

lemma winv_wstep: "winv w \<Longrightarrow> winv (wstep L op w)"
  by (cases op) (simp_all add: winv_loadData winv_ajax_done winv_removeSource winv_base_loadTile winv_reloadTile)

lemma winv_wrun: "winv w \<Longrightarrow> winv (wrun L ops w)"
  by (induction ops arbitrary: w) (simp_all add: winv_wstep)

lemma winv_worker0: "winv worker0"
  by (simp add: winv_def worker0_def)





text \<open>
  When \<open>perf.finish()\<close> throws, the handler has already stored the new index and reset
  the loaded tiles, and it calls no callback.
\<close>

lemma timing_throws_after_install:
  assumes "request p = Some r" "collectResourceTiming r" "\<not> falsy (Some v)" "typeof_object v"
    and "rewind L v = Inr v'" "geojsonvt L v' (geojsonVtOptions p) = Inr idx"
  shows "loadData_done L p c (Inl m) None (Some v) w =
     (Some m, w\<lparr>pendingCallback := None, pendingRequest := None,
                vectorTilePlugin := Some idx, loaded := (\<lambda>u. None)\<rparr>)"
  using assms by (simp add: loadData_done_def Let_def)




lemmas worker_defs = loadData_def loadGeoJSON_def loadData_done_def ajax_done_def removeSource_def
  base_loadTile_def super_reloadTile_def reloadTile_def loadTile_def emit_def worker0_def lib0_def
  inline0_def remote0_def tile0_def abandoned_result_def is_abandoned_def bad0_def Let_def


section \<open>Facts about the source on the main thread\<close>

lemma effect_simps [simp]:
  "effects (effect e s) = effects s @ [e]"
  "pendingLoads (effect e s) = pendingLoads s"
  "removed (effect e s) = removed s"
  "callbacks (effect e s) = callbacks s"
  "sent (effect e s) = sent s"
  "nextId (effect e s) = nextId s"
  "tiles (effect e s) = tiles s"
  "planet (effect e s) = planet s"
  "c_data (effect e s) = c_data s"
  by (simp_all add: effect_def)

lemma set_tile_simps [simp]:
  "effects (set_tile u t s) = effects s"
  "pendingLoads (set_tile u t s) = pendingLoads s"
  "removed (set_tile u t s) = removed s"
  "callbacks (set_tile u t s) = callbacks s"
  "sent (set_tile u t s) = sent s"
  "nextId (set_tile u t s) = nextId s"
  "tiles (set_tile u t s) = (tiles s)(u := t)"
  "planet (set_tile u t s) = planet s"
  by (simp_all add: set_tile_def)

lemma send_simps [simp]:
  "fst (send m k s) = nextId s"
  "effects (snd (send m k s)) = effects s"
  "pendingLoads (snd (send m k s)) = pendingLoads s"
  "removed (snd (send m k s)) = removed s"
  "callbacks (snd (send m k s)) = (case k of None \<Rightarrow> callbacks s | Some c \<Rightarrow> callbacks s @ [(nextId s, c)])"
  "sent (snd (send m k s)) = sent s @ [(nextId s, m)]"
  "nextId (snd (send m k s)) = Suc (nextId s)"
  "tiles (snd (send m k s)) = tiles s"
  "planet (snd (send m k s)) = planet s"
  "c_data (snd (send m k s)) = c_data s"
  by (simp_all add: send_def)

lemma unregister_simps [simp]:
  "effects (unregister i s) = effects s"
  "pendingLoads (unregister i s) = pendingLoads s"
  "removed (unregister i s) = removed s"
  "callbacks (unregister i s) = filter (\<lambda>e. fst e \<noteq> i) (callbacks s)"
  "sent (unregister i s) = sent s"
  "nextId (unregister i s) = nextId s"
  "tiles (unregister i s) = tiles s"
  "planet (unregister i s) = planet s"
  "c_data (unregister i s) = c_data s"
  "sid (unregister i s) = sid s"
  "collectTiming (unregister i s) = collectTiming s"
  by (simp_all add: unregister_def)

lemma cancel_request_simps [simp]:
  "effects (cancel_request i s) = effects s"
  "pendingLoads (cancel_request i s) = pendingLoads s"
  "removed (cancel_request i s) = removed s"
  "callbacks (cancel_request i s) = filter (\<lambda>e. fst e \<noteq> i) (callbacks s)"
  "sent (cancel_request i s) = sent s @ [(i, CancelMsg)]"
  "nextId (cancel_request i s) = nextId s"
  "tiles (cancel_request i s) = tiles s"
  "planet (cancel_request i s) = planet s"
  by (simp_all add: cancel_request_def)

lemma fired_append: "fired (xs @ ys) = fired xs @ fired ys"
  by (induction xs rule: fired.induct) auto

lemma filter_key_count:
  assumes "distinct (map fst xs)" "map_of xs i = Some k"
  shows "length (filter P xs) = length (filter P (filter (\<lambda>e. fst e \<noteq> i) xs)) + (if P (i, k) then 1 else 0)"
  using assms
proof (induction xs)
  case Nil
  then show ?case by simp
next
  case (Cons a xs)
  show ?case
  proof (cases "fst a = i")
    case True
    with Cons.prems have ak: "a = (i, k)" by (cases a) auto
    from Cons.prems True have "i \<notin> fst ` set xs" by auto
    then have "filter (\<lambda>e. fst e \<noteq> i) xs = xs" by (auto simp: filter_id_conv)
    with ak show ?thesis by simp
  next
    case False
    with Cons show ?thesis by (cases a) auto
  qed
qed

lemma map_of_filter_key:
  "map_of (filter (\<lambda>e. fst e \<noteq> i) xs) j = (if j = i then None else map_of xs j)"
  by (induction xs) auto

lemma filter_key_none:
  "map_of xs i = None \<Longrightarrow> filter (\<lambda>e. fst e \<noteq> i) xs = xs"
  by (induction xs) (auto split: if_splits)

lemma cinvD:
  assumes "cinv s"
  shows "distinct (map fst (callbacks s))"
    and "\<And>e. e \<in> set (callbacks s) \<Longrightarrow> fst e < nextId s"
    and "\<And>u i. tile_request (tiles s u) = Some i \<Longrightarrow> i < nextId s"
    and "\<And>u i k. tile_request (tiles s u) = Some i \<Longrightarrow> map_of (callbacks s) i = Some k \<Longrightarrow> \<not> is_load (i, k)"
    and "pendingLoads s = int (outstanding s)"
    and "pendingLoads s = int (loads s) - int (completions s)"
  using assms unfolding cinv_def by blast+

lemma cinvI:
  assumes "distinct (map fst (callbacks s))"
    and "\<And>e. e \<in> set (callbacks s) \<Longrightarrow> fst e < nextId s"
    and "\<And>u i. tile_request (tiles s u) = Some i \<Longrightarrow> i < nextId s"
    and "\<And>u i k. tile_request (tiles s u) = Some i \<Longrightarrow> map_of (callbacks s) i = Some k \<Longrightarrow> \<not> is_load (i, k)"
    and "pendingLoads s = int (outstanding s)"
    and "pendingLoads s = int (loads s) - int (completions s)"
  shows "cinv s"
  using assms unfolding cinv_def by blast

lemma map_of_fresh:
  assumes "\<And>e. e \<in> set xs \<Longrightarrow> fst e < (n::nat)"
  shows "map_of xs n = None"
proof (rule ccontr)
  assume "map_of xs n \<noteq> None"
  then obtain k where "map_of xs n = Some k" by auto
  then have "(n, k) \<in> set xs" by (rule map_of_SomeD)
  with assms[of "(n, k)"] show False by simp
qed

lemma cinv_constructor: "cinv (constructor ident d mz collect vtopts pl ids)"
  by (simp add: cinv_def constructor_def outstanding_def loads_def completions_def split: option.splits)

lemma cinv_updateWorkerData:
  assumes "cinv s"
  shows "cinv (updateWorkerData H t s)"
proof (rule cinvI)
  let ?s = "updateWorkerData H t s"
  have cb: "callbacks ?s = callbacks s @ [(nextId s, LoadDataK t)]"
    and nx: "nextId ?s = Suc (nextId s)" and tl: "tiles ?s = tiles s"
    and pl: "pendingLoads ?s = pendingLoads s + 1"
    and ef: "effects ?s = effects s @ [Fire DataLoading]"
    by (simp_all add: updateWorkerData_def Let_def)
  show "distinct (map fst (callbacks ?s))"
    using cinvD(1)[OF assms] cinvD(2)[OF assms] by (fastforce simp: cb)
  show "fst e < nextId ?s" if "e \<in> set (callbacks ?s)" for e
    using that cinvD(2)[OF assms, of e] by (auto simp: cb nx)
  show "i < nextId ?s" if "tile_request (tiles ?s u) = Some i" for u i
    using that cinvD(3)[OF assms, of u i] by (simp add: tl nx)
  show "\<not> is_load (i, k)" if "tile_request (tiles ?s u) = Some i" "map_of (callbacks ?s) i = Some k" for u i k
  proof -
    from that(1) have r: "tile_request (tiles s u) = Some i" by (simp add: tl)
    then have "i < nextId s" by (rule cinvD(3)[OF assms])
    with that(2) have "map_of (callbacks s) i = Some k"
      by (auto simp: cb map_add_Some_iff split: if_splits)
    with r show ?thesis by (rule cinvD(4)[OF assms])
  qed
  show "pendingLoads ?s = int (outstanding ?s)"
    using cinvD(5)[OF assms] by (simp add: pl cb outstanding_def)
  show "pendingLoads ?s = int (loads ?s) - int (completions ?s)"
    using cinvD(6)[OF assms] by (simp add: pl ef loads_def completions_def fired_append)
qed

lemma cinv_c_data: "cinv s \<Longrightarrow> cinv (s\<lparr>c_data := d\<rparr>)"
  by (simp add: cinv_def outstanding_def loads_def completions_def)

lemma cinv_source_loadTile:
  assumes "cinv s"
  shows "cinv (source_loadTile u c s)"
proof (rule cinvI)
  let ?s = "source_loadTile u c s"
  have cb: "callbacks ?s = callbacks s @ [(nextId s, TileK u (tile_actor (tiles s u)) c)]"
    and nx: "nextId ?s = Suc (nextId s)"
    and pl: "pendingLoads ?s = pendingLoads s"
    and tl: "\<And>v. tile_request (tiles ?s v) = (if v = u then Some (nextId s) else tile_request (tiles s v))"
    by (simp_all add: source_loadTile_def Let_def split: option.splits)
  have ef: "fired (effects ?s) = fired (effects s)"
    by (simp add: source_loadTile_def Let_def fired_append split: option.splits)
  have fresh: "map_of (callbacks s) (nextId s) = None"
    using cinvD(2)[OF assms] by (rule map_of_fresh)
  show "distinct (map fst (callbacks ?s))"
    using cinvD(1)[OF assms] cinvD(2)[OF assms] by (fastforce simp: cb)
  show "fst e < nextId ?s" if "e \<in> set (callbacks ?s)" for e
    using that cinvD(2)[OF assms, of e] by (auto simp: cb nx)
  show "i < nextId ?s" if "tile_request (tiles ?s v) = Some i" for v i
    using that cinvD(3)[OF assms, of v i] by (auto simp: tl nx split: if_splits)
  show "\<not> is_load (i, k)" if "tile_request (tiles ?s v) = Some i" "map_of (callbacks ?s) i = Some k" for v i k
  proof (cases "i = nextId s")
    case True
    with that(2) fresh show ?thesis by (auto simp: cb map_add_Some_iff)
  next
    case False
    with that(1) have r: "tile_request (tiles s v) = Some i" by (auto simp: tl split: if_splits)
    from that(2) False have "map_of (callbacks s) i = Some k"
      by (auto simp: cb map_add_Some_iff split: if_splits)
    with r show ?thesis by (rule cinvD(4)[OF assms])
  qed
  show "pendingLoads ?s = int (outstanding ?s)"
    using cinvD(5)[OF assms] by (simp add: pl cb outstanding_def)
  show "pendingLoads ?s = int (loads ?s) - int (completions ?s)"
    using cinvD(6)[OF assms] by (simp add: pl ef loads_def completions_def)
qed

lemma cinv_drop_key:
  assumes "cinv s" and nl: "\<And>k. map_of (callbacks s) i = Some k \<Longrightarrow> \<not> is_load (i, k)"
    and cb: "callbacks s' = filter (\<lambda>e. fst e \<noteq> i) (callbacks s)"
    and nx: "nextId s' = nextId s" and pl: "pendingLoads s' = pendingLoads s"
    and ef: "fired (effects s') = fired (effects s)"
    and tl: "\<And>v j. tile_request (tiles s' v) = Some j \<Longrightarrow> tile_request (tiles s v) = Some j"
  shows "cinv s'"
proof (rule cinvI)
  show "distinct (map fst (callbacks s'))"
    using cinvD(1)[OF assms(1)] by (simp add: cb distinct_map_filter)
  show "fst e < nextId s'" if "e \<in> set (callbacks s')" for e
    using that cinvD(2)[OF assms(1), of e] by (auto simp: cb nx)
  show "j < nextId s'" if "tile_request (tiles s' v) = Some j" for v j
    using tl[OF that] cinvD(3)[OF assms(1)] by (simp add: nx)
  show "\<not> is_load (j, k)" if "tile_request (tiles s' v) = Some j" "map_of (callbacks s') j = Some k" for v j k
    using tl[OF that(1)] that(2) cinvD(4)[OF assms(1), of v j k]
    by (auto simp: cb map_of_filter_key split: if_splits)
  have "length (filter is_load (callbacks s)) = length (filter is_load (filter (\<lambda>e. fst e \<noteq> i) (callbacks s)))"
  proof (cases "map_of (callbacks s) i")
    case None
    then show ?thesis by (simp add: filter_key_none)
  next
    case (Some k)
    from filter_key_count[OF cinvD(1)[OF assms(1)] Some, of is_load] nl[OF Some]
    show ?thesis by simp
  qed
  then show "pendingLoads s' = int (outstanding s')"
    using cinvD(5)[OF assms(1)] by (simp add: pl cb outstanding_def)
  show "pendingLoads s' = int (loads s') - int (completions s')"
    using cinvD(6)[OF assms(1)] by (simp add: pl ef loads_def completions_def)
qed

lemma cinv_tiles:
  assumes "cinv s" and cb: "callbacks s' = callbacks s"
    and nx: "nextId s' = nextId s" and pl: "pendingLoads s' = pendingLoads s"
    and ef: "fired (effects s') = fired (effects s)"
    and tl: "\<And>v j. tile_request (tiles s' v) = Some j \<Longrightarrow> tile_request (tiles s v) = Some j"
  shows "cinv s'"
proof (rule cinvI)
  show "distinct (map fst (callbacks s'))" "\<And>e. e \<in> set (callbacks s') \<Longrightarrow> fst e < nextId s'"
    using cinvD(1,2)[OF assms(1)] by (simp_all add: cb nx)
  show "j < nextId s'" if "tile_request (tiles s' v) = Some j" for v j
    using tl[OF that] cinvD(3)[OF assms(1)] by (simp add: nx)
  show "\<not> is_load (j, k)" if "tile_request (tiles s' v) = Some j" "map_of (callbacks s') j = Some k" for v j k
    using tl[OF that(1)] that(2) cinvD(4)[OF assms(1), of v j k] by (simp add: cb)
  show "pendingLoads s' = int (outstanding s')"
    using cinvD(5)[OF assms(1)] by (simp add: pl cb outstanding_def)
  show "pendingLoads s' = int (loads s') - int (completions s')"
    using cinvD(6)[OF assms(1)] by (simp add: pl ef loads_def completions_def)
qed

lemma cinv_abortTile:
  assumes "cinv s"
  shows "cinv (abortTile u s)"
proof (cases "tile_request (tiles s u)")
  case None
  show ?thesis
    by (rule cinv_tiles[OF assms]) (simp_all add: abortTile_def None split: if_splits)
next
  case (Some i)
  show ?thesis
  proof (rule cinv_drop_key[OF assms, where i = i])
    show "\<not> is_load (i, k)" if "map_of (callbacks s) i = Some k" for k
      using cinvD(4)[OF assms Some that] .
  qed (simp_all add: abortTile_def Some split: if_splits)
qed

lemma cinv_unloadTile: "cinv s \<Longrightarrow> cinv (unloadTile u s)"
  by (fastforce simp: cinv_def unloadTile_def Let_def outstanding_def loads_def completions_def
        fired_append less_Suc_eq)

lemma cinv_onRemove: "cinv s \<Longrightarrow> cinv (onRemove s)"
  by (fastforce simp: cinv_def onRemove_def send_def Let_def outstanding_def loads_def
        completions_def fired_append less_Suc_eq)

lemma cinv_data_response:
  assumes "cinv s"
  shows "cinv (cstep H (DataResponse i err res) s)"
proof (cases "\<exists>t. map_of (callbacks s) i = Some (LoadDataK t)")
  case False
  then have "cstep H (DataResponse i err res) s = s"
    by (auto split: option.splits continuation.splits)
  with assms show ?thesis by simp
next
  case True
  then obtain t where m: "map_of (callbacks s) i = Some (LoadDataK t)" by blast
  let ?s = "loadData_response t err res (unregister i s)"
  have st: "cstep H (DataResponse i err res) s = ?s" using m by simp
  have cb: "callbacks ?s = filter (\<lambda>e. fst e \<noteq> i) (callbacks s)"
    and nx: "nextId ?s = nextId s" and tl: "tiles ?s = tiles s"
    and pl: "pendingLoads ?s = pendingLoads s - 1"
    by (simp_all add: loadData_response_def Let_def split: option.splits)
  have "\<exists>e. is_completion e \<and> fired (effects ?s) = fired (effects s) @ [e]"
    by (auto simp: loadData_response_def Let_def fired_append split: option.splits)
  then obtain e where ef: "is_completion e" "fired (effects ?s) = fired (effects s) @ [e]" by blast
  then have nl: "e \<noteq> DataLoading" by auto
  have cnt: "length (filter is_load (callbacks s)) = length (filter is_load (callbacks ?s)) + 1"
    using filter_key_count[OF cinvD(1)[OF assms] m, of is_load] by (simp add: cb)
  have "cinv ?s"
  proof (rule cinvI)
    show "distinct (map fst (callbacks ?s))"
      using cinvD(1)[OF assms] by (simp add: cb distinct_map_filter)
    show "fst x < nextId ?s" if "x \<in> set (callbacks ?s)" for x
      using that cinvD(2)[OF assms, of x] by (auto simp: cb nx)
    show "j < nextId ?s" if "tile_request (tiles ?s v) = Some j" for v j
      using that cinvD(3)[OF assms, of v j] by (simp add: tl nx)
    show "\<not> is_load (j, k)" if "tile_request (tiles ?s v) = Some j" "map_of (callbacks ?s) j = Some k" for v j k
      using that cinvD(4)[OF assms, of v j k]
      by (auto simp: cb tl map_of_filter_key split: if_splits)
    show "pendingLoads ?s = int (outstanding ?s)"
      using cinvD(5)[OF assms] cnt by (simp add: pl outstanding_def)
    show "pendingLoads ?s = int (loads ?s) - int (completions ?s)"
      using cinvD(6)[OF assms] ef nl by (simp add: pl loads_def completions_def)
  qed
  with st show ?thesis by simp
qed

lemma cinv_tile_response:
  assumes "cinv s"
  shows "cinv (cstep H (TileResponse i err d) s)"
proof (cases "\<exists>u r c. map_of (callbacks s) i = Some (TileK u r c)")
  case False
  then have "cstep H (TileResponse i err d) s = s"
    by (auto split: option.splits continuation.splits)
  with assms show ?thesis by simp
next
  case True
  then obtain u r c where m: "map_of (callbacks s) i = Some (TileK u r c)" by blast
  let ?s = "tile_response u r c err d (unregister i s)"
  have st: "cstep H (TileResponse i err d) s = ?s" using m by simp
  have "cinv ?s"
  proof (rule cinv_drop_key[OF assms, where i = i])
    show "\<not> is_load (i, k)" if "map_of (callbacks s) i = Some k" for k
      using that m by auto
    show "fired (effects ?s) = fired (effects s)"
      by (simp add: tile_response_def Let_def fired_append split: option.splits)
    show "tile_request (tiles s v) = Some j" if "tile_request (tiles ?s v) = Some j" for v j
      using that by (auto simp: tile_response_def Let_def split: option.splits if_splits)
  qed (simp_all add: tile_response_def Let_def split: option.splits)
  with st show ?thesis by simp
qed

lemma cinv_cstep: "cinv s \<Longrightarrow> cinv (cstep H op s)"
proof (cases op)
  case (DataResponse i err res)
  assume "cinv s" then show ?thesis unfolding DataResponse by (rule cinv_data_response)
next
  case (TileResponse i err d)
  assume "cinv s" then show ?thesis unfolding TileResponse by (rule cinv_tile_response)
qed (simp_all add: onAdd_def load_def setData_def cinv_updateWorkerData cinv_c_data
      cinv_source_loadTile cinv_abortTile cinv_unloadTile cinv_onRemove)

lemma cinv_crun: "cinv s \<Longrightarrow> cinv (crun H ops s)"
  by (induction ops arbitrary: s) (simp_all add: cinv_cstep)

lemmas source_defs = constructor_def source0_def host0_def updateWorkerData_def setData_def
  onAdd_def load_def send_def effect_def set_tile_def unregister_def cancel_request_def
  loadData_response_def tile_response_def source_loadTile_def abortTile_def unloadTile_def
  onRemove_def source_loaded_def outstanding_def is_abandoned_def abandoned_result_def Let_def


section \<open>The freshest data load wins\<close>

text \<open>
  C1. A new \<open>loadData\<close> first cancels the pending request and calls the pending
  callback with \<open>{abandoned: true}\<close>, and only then enters \<open>loadGeoJSON\<close> for the new
  call. So in every run of a worker source every data-load callback that is called with
  anything but \<open>{abandoned: true}\<close> belongs to the most recent call, and a request that
  can still complete belongs to that call too.
\<close>

theorem freshest_load_wins:
  "(\<exists>rest. out (loadData L p c w) =
      out w @ (case pendingRequest w of None \<Rightarrow> [] | Some h \<Rightarrow> [Cancel h]) @
      (case pendingCallback w of None \<Rightarrow> []
       | Some pc \<Rightarrow> [DataCallback pc None (Some abandoned_result)]) @
      LoadGeoJSON c # rest) \<and>
   fresh None (out (wrun L ops worker0)) \<and>
   (\<forall>e \<in> set (ajax (wrun L ops worker0)).
      pendingCallback (wrun L ops worker0) = Some (snd (snd e)) \<and>
      latest None (out (wrun L ops worker0)) = Some (snd (snd e)))"
proof -
  have inv: "winv (wrun L ops worker0)" by (rule winv_wrun[OF winv_worker0])
  obtain rest where "out (loadData L p c w) = out w @ preamble w c @ rest"
    using loadData_out by blast
  then have "\<exists>rest. out (loadData L p c w) =
      out w @ (case pendingRequest w of None \<Rightarrow> [] | Some h \<Rightarrow> [Cancel h]) @
      (case pendingCallback w of None \<Rightarrow> []
       | Some pc \<Rightarrow> [DataCallback pc None (Some abandoned_result)]) @
      LoadGeoJSON c # rest"
    by (simp add: preamble_def)
  with inv show ?thesis unfolding winv_def by blast
qed

theorem freshest_load_wins_witness:
  "out (wrun lib0 [LoadData remote0 1, LoadData inline0 2, AjaxDone 0 (Inr None) None (Some (JObj []))]
          (worker0 :: (nat, nat list, nat list) worker)) =
     [LoadGeoJSON 1, Cancel (AjaxRequest 0), DataCallback 1 None (Some abandoned_result),
      LoadGeoJSON 2, DataCallback 2 None (Some \<lparr>resourceTiming = None, abandoned = False\<rparr>)] \<and>
   fresh None (out (wrun lib0 [LoadData remote0 1, LoadData inline0 2,
      AjaxDone 0 (Inr None) None (Some (JObj []))] (worker0 :: (nat, nat list, nat list) worker))) \<and>
   ajax (wrun lib0 [LoadData inline0 1, LoadData remote0 2]
      (worker0 :: (nat, nat list, nat list) worker)) = [(0, remote0, 2)] \<and>
   pendingCallback (wrun lib0 [LoadData inline0 1, LoadData remote0 2]
      (worker0 :: (nat, nat list, nat list) worker)) = Some 2 \<and>
   latest None (out (wrun lib0 [LoadData inline0 1, LoadData remote0 2]
      (worker0 :: (nat, nat list, nat list) worker))) = Some 2"
  using freshest_load_wins [of lib0 remote0 1 "worker0 :: (nat, nat list, nat list) worker"
      "[LoadData remote0 1, LoadData inline0 2, AjaxDone 0 (Inr None) None (Some (JObj []))]"]
    freshest_load_wins [of lib0 remote0 1 "worker0 :: (nat, nat list, nat list) worker"
      "[LoadData inline0 1, LoadData remote0 2]"]
  by (simp add: worker_defs)


section \<open>Removing the source in the worker\<close>

text \<open>
  C2, as stated, fails: after \<open>removeSource\<close> the worker source still holds its index
  and its loaded tiles, and a request that completes afterwards installs a new index.
\<close>

theorem removeSource_keeps_index_counterexample:
  "vectorTilePlugin (removeSource 9 (wrun lib0 [LoadData inline0 1, LoadTile tile0 2]
      (worker0 :: (nat, nat list, nat list) worker))) = Some 7 \<and>
   loaded (removeSource 9 (wrun lib0 [LoadData inline0 1, LoadTile tile0 2]
      (worker0 :: (nat, nat list, nat list) worker))) 1 =
     Some (Some \<lparr>vectorTile = [7, 2, 3], rawData = [8, 3, 4]\<rparr>) \<and>
   vectorTilePlugin (wrun lib0 [LoadData remote0 1, RemoveSource 9]
      (worker0 :: (nat, nat list, nat list) worker)) = None \<and>
   vectorTilePlugin (wrun lib0 [LoadData remote0 1, RemoveSource 9,
      AjaxDone 0 (Inr None) None (Some (JObj []))] (worker0 :: (nat, nat list, nat list) worker)) = Some 7"
  by (simp add: worker_defs)

text \<open>
  C2, amended: \<open>removeSource\<close> leaves the index and the loaded tiles as they are; it
  calls the pending data-load callback, if there is one, with \<open>{abandoned: true}\<close> and
  then acknowledges.
\<close>

theorem removeSource_abandons_pending:
  "vectorTilePlugin (removeSource c w) = vectorTilePlugin w \<and>
   loaded (removeSource c w) = loaded w \<and>
   out (removeSource c w) =
     out w @ (case pendingCallback w of None \<Rightarrow> []
              | Some pc \<Rightarrow> [DataCallback pc None (Some abandoned_result)]) @ [Ack c]"
  by (simp add: removeSource_def Let_def split: option.splits)

theorem removeSource_abandons_pending_witness:
  "vectorTilePlugin (removeSource 9 (wrun lib0 [LoadData inline0 1, LoadData remote0 2]
      (worker0 :: (nat, nat list, nat list) worker))) = Some 7 \<and>
   out (removeSource 9 (wrun lib0 [LoadData inline0 1, LoadData remote0 2]
      (worker0 :: (nat, nat list, nat list) worker))) =
     out (wrun lib0 [LoadData inline0 1, LoadData remote0 2]
      (worker0 :: (nat, nat list, nat list) worker)) @
     [DataCallback 2 None (Some abandoned_result), Ack 9]"
  using removeSource_abandons_pending [of 9 "wrun lib0 [LoadData inline0 1, LoadData remote0 2]
      (worker0 :: (nat, nat list, nat list) worker)"]
  by (simp add: worker_defs)


section \<open>Tile requests without an index\<close>

text \<open>
  C3, as stated, fails: with no index the worker's \<open>loadTile\<close> answers with no error
  and no data, it does not fail.
\<close>

theorem loadTile_not_ready_counterexample:
  "\<not> (\<exists>e. fst (loadTile lib0 None \<lparr>tp_uid = 1, tp_canonical = \<lparr>tile_z = 0, tile_x = 0, tile_y = 0\<rparr>\<rparr>) = Some e)"
  by (simp add: loadTile_def)

text \<open>
  C3, amended: \<open>loadTile\<close> never reports an error. Without an index, and with an index
  that has no tile at the coordinate, it answers with no data; with a tile at the
  coordinate it answers with the tile's features and their encoding.
\<close>

theorem loadTile_cases:
  "loadTile L None params = (None, None) \<and>
   loadTile L (Some p) params =
     (case getTile L p (tile_z (tp_canonical params))
             (tile_x (tp_canonical params)) (tile_y (tp_canonical params)) of
        None \<Rightarrow> (None, None)
      | Some fs \<Rightarrow> (None, Some \<lparr>vectorTile = fs, rawData = vtpbf L fs\<rparr>))"
  by (simp add: loadTile_def Let_def)

theorem loadTile_cases_witness:
  "loadTile lib0 None \<lparr>tp_uid = 1, tp_canonical = \<lparr>tile_z = 0, tile_x = 2, tile_y = 3\<rparr>\<rparr> = (None, None) \<and>
   loadTile lib0 (Some 7) \<lparr>tp_uid = 1, tp_canonical = \<lparr>tile_z = 0, tile_x = 2, tile_y = 3\<rparr>\<rparr>
     = (None, Some \<lparr>vectorTile = [7, 2, 3], rawData = [8, 3, 4]\<rparr>) \<and>
   loadTile lib0 (Some 7) \<lparr>tp_uid = 1, tp_canonical = \<lparr>tile_z = 1, tile_x = 2, tile_y = 3\<rparr>\<rparr> = (None, None)"
  using loadTile_cases [of lib0 "\<lparr>tp_uid = 1, tp_canonical = \<lparr>tile_z = 0, tile_x = 2, tile_y = 3\<rparr>\<rparr>" 7]
        loadTile_cases [of lib0 "\<lparr>tp_uid = 1, tp_canonical = \<lparr>tile_z = 1, tile_x = 2, tile_y = 3\<rparr>\<rparr>" 7]
  by (simp add: lib0_def)


section \<open>Reloading a tile in the worker\<close>

text \<open>
  C4. \<open>reloadTile\<close> for a tile that is among the loaded tiles encodes it again and leaves
  the index and the loaded tiles as they are; for a tile that is not, it is \<open>loadTile\<close>:
  the callback gets what the module-level \<open>loadTile\<close> reads from the index, so a reload
  that arrives before its load loses no data.
\<close>

theorem reloadTile_falls_back:
  "(\<forall>t. loaded w (tp_uid p) = Some t \<longrightarrow>
      vectorTilePlugin (reloadTile L p c w) = vectorTilePlugin w \<and>
      loaded (reloadTile L p c w) = loaded w \<and>
      out (reloadTile L p c w) = out w @ [TileCallback c None t]) \<and>
   (loaded w (tp_uid p) = None \<longrightarrow>
      reloadTile L p c w = base_loadTile L p c w \<and>
      vectorTilePlugin (reloadTile L p c w) = vectorTilePlugin w \<and>
      out (reloadTile L p c w) =
        out w @ [TileCallback c (fst (loadTile L (vectorTilePlugin w) p))
                   (snd (loadTile L (vectorTilePlugin w) p))])"
  by (simp add: reloadTile_def super_reloadTile_def base_loadTile_def Let_def)

theorem reloadTile_falls_back_witness:
  "out (wrun lib0 [LoadData inline0 1, ReloadTile tile0 2, ReloadTile tile0 3]
      (worker0 :: (nat, nat list, nat list) worker)) =
     [LoadGeoJSON 1, DataCallback 1 None (Some \<lparr>resourceTiming = None, abandoned = False\<rparr>),
      TileCallback 2 None (Some \<lparr>vectorTile = [7, 2, 3], rawData = [8, 3, 4]\<rparr>),
      TileCallback 3 None (Some \<lparr>vectorTile = [7, 2, 3], rawData = [8, 3, 4]\<rparr>)] \<and>
   loaded (wrun lib0 [LoadData inline0 1] (worker0 :: (nat, nat list, nat list) worker))
      (tp_uid tile0) = None \<and>
   loaded (wrun lib0 [LoadData inline0 1, ReloadTile tile0 2]
      (worker0 :: (nat, nat list, nat list) worker)) (tp_uid tile0) =
     Some (Some \<lparr>vectorTile = [7, 2, 3], rawData = [8, 3, 4]\<rparr>)"
  using reloadTile_falls_back [of "wrun lib0 [LoadData inline0 1]
      (worker0 :: (nat, nat list, nat list) worker)" tile0 lib0 2]
    reloadTile_falls_back [of "wrun lib0 [LoadData inline0 1, ReloadTile tile0 2]
      (worker0 :: (nat, nat list, nat list) worker)" tile0 lib0 3]
  by (simp add: worker_defs)


section \<open>The life cycle of a data load on the main thread\<close>

text \<open>
  C5. \<open>setData\<close> stores the data, increments the counter of pending loads, fires
  \<open>dataloading\<close> and sends a \<open>loadData\<close> message for the data it was given (the request
  for a URL, the JSON text for an object), whose callback is for content. The
  response to a data load fires exactly one event: \<open>dataabort\<close> when the source has been
  removed or the result says \<open>abandoned\<close> (also when an error comes with it), else the
  error, else \<open>data\<close>.
\<close>

theorem setData_lifecycle:
  "pendingLoads (setData H d s) = pendingLoads s + 1 \<and>
   c_data (setData H d s) = d \<and>
   effects (setData H d s) = effects s @ [Fire DataLoading] \<and>
   sent (setData H d s) =
     sent s @
     [(nextId s,
       LoadDataMsg
         (case d of
            DataUrl u \<Rightarrow>
              (workerOptions s)\<lparr>request :=
                 Some \<lparr>url = transformRequest H u, collectResourceTiming = collectTiming s\<rparr>\<rparr>
          | DataObject g \<Rightarrow> (workerOptions s)\<lparr>data := Some (JSON_stringify H g)\<rparr>))] \<and>
   callbacks (setData H d s) = callbacks s @ [(nextId s, LoadDataK Content)] \<and>
   (map_of (callbacks s) i = Some (LoadDataK t) \<longrightarrow>
      (\<exists>e. effects (cstep H (DataResponse i err res) s) = effects s @ [Fire e] \<and>
         ((removed s \<or> is_abandoned res) \<and> e = DataAbort t \<or>
          \<not> (removed s \<or> is_abandoned res) \<and> (\<exists>m. err = Some m \<and> e = ErrorEvent m) \<or>
          \<not> (removed s \<or> is_abandoned res) \<and> err = None \<and> (\<exists>tm. e = DataEvent t tm))))"
proof (intro conjI impI)
  assume "map_of (callbacks s) i = Some (LoadDataK t)"
  then have "cstep H (DataResponse i err res) s = loadData_response t err res (unregister i s)"
    by simp
  then show "\<exists>e. effects (cstep H (DataResponse i err res) s) = effects s @ [Fire e] \<and>
         ((removed s \<or> is_abandoned res) \<and> e = DataAbort t \<or>
          \<not> (removed s \<or> is_abandoned res) \<and> (\<exists>m. err = Some m \<and> e = ErrorEvent m) \<or>
          \<not> (removed s \<or> is_abandoned res) \<and> err = None \<and> (\<exists>tm. e = DataEvent t tm))"
    by (cases err) (auto simp: loadData_response_def Let_def)
qed (simp_all add: setData_def updateWorkerData_def Let_def split: source_data.splits)

theorem setData_lifecycle_witness:
  "map_of (callbacks (setData host0 (DataUrl ''u'') source0)) 0 = Some (LoadDataK Content) \<and>
   pendingLoads (setData host0 (DataUrl ''u'') source0) = 1 \<and>
   sent (setData host0 (DataUrl ''u'') source0) =
     [(0, LoadDataMsg \<lparr>request = Some \<lparr>url = ''u'', collectResourceTiming = False\<rparr>,
                        data = None, source = ''s'', geojsonVtOptions = None\<rparr>)] \<and>
   sent (setData host0 (DataObject (JArr [])) source0) =
     [(0, LoadDataMsg \<lparr>request = None, data = Some ''[]'', source = ''s'',
                        geojsonVtOptions = None\<rparr>)] \<and>
   effects (cstep host0 (DataResponse 0 (Some ''late'') (Some abandoned_result))
      (setData host0 (DataUrl ''u'') source0)) = [Fire DataLoading, Fire (DataAbort Content)] \<and>
   effects (cstep host0 (DataResponse 0 (Some ''boom'') None)
      (setData host0 (DataUrl ''u'') source0)) = [Fire DataLoading, Fire (ErrorEvent ''boom'')] \<and>
   effects (cstep host0 (DataResponse 0 None (Some \<lparr>resourceTiming = None, abandoned = False\<rparr>))
      (setData host0 (DataUrl ''u'') source0)) =
     [Fire DataLoading, Fire (DataEvent Content None)]"
  using setData_lifecycle [of host0 "DataUrl ''u''" source0 0 Content]
    setData_lifecycle [of host0 "DataObject (JArr [])" source0 0 Content]
    setData_lifecycle [of host0 "DataUrl ''u''" "setData host0 (DataUrl ''u'') source0" 0 Content
      "Some ''late''" "Some abandoned_result"]
  by (simp add: source_defs)


section \<open>The counter of pending loads\<close>

text \<open>
  C6. In every state that a source reaches from its constructor, the counter of pending
  loads is not negative, it is the number of data loads that have been dispatched and
  not answered, and it is the number of \<open>dataloading\<close> events less the number of
  completion events; so it is 0 once every data load has been answered. \<open>loaded()\<close>
  holds exactly when it is 0. Dispatching a data load adds one to it, and every answer
  to a data load (a result, an error or an abandonment) takes one from it.
\<close>

theorem pending_loads_counter:
  fixes H :: host and ops :: "'d cop list"
    and pl :: "(nat \<Rightarrow> nat \<Rightarrow> nat \<Rightarrow> 's option) option"
    and ident d mz collect vtopts ids
  defines "s \<equiv> (crun H ops (constructor ident d mz collect vtopts pl ids) :: ('d, 's) coordinator)"
  shows "0 \<le> pendingLoads s \<and>
     pendingLoads s = int (outstanding s) \<and>
     pendingLoads s = int (length (filter (\<lambda>e. e = DataLoading) (fired (effects s)))) -
        int (length (filter is_completion (fired (effects s)))) \<and>
     (outstanding s = 0 \<longrightarrow> pendingLoads s = 0) \<and>
     (source_loaded s \<longleftrightarrow> pendingLoads s = 0) \<and>
     pendingLoads (updateWorkerData H t s) = pendingLoads s + 1 \<and>
     (map_of (callbacks s) i = Some (LoadDataK t) \<longrightarrow>
        pendingLoads (cstep H (DataResponse i err res) s) = pendingLoads s - 1)"
proof -
  have "cinv s" unfolding s_def by (rule cinv_crun[OF cinv_constructor])
  from cinvD(5,6)[OF this] show ?thesis
    by (auto simp: loads_def completions_def source_loaded_def updateWorkerData_def
          loadData_response_def Let_def split: option.splits)
qed

theorem pending_loads_counter_witness:
  "pendingLoads (crun host0 [OnAdd, SetData (DataUrl ''u'')] source0) = 2 \<and>
   outstanding (crun host0 [OnAdd, SetData (DataUrl ''u'')] source0) = 2 \<and>
   map_of (callbacks (crun host0 [OnAdd, SetData (DataUrl ''u'')] source0)) 0 =
     Some (LoadDataK Metadata) \<and>
   pendingLoads (cstep host0 (DataResponse 0 None (Some abandoned_result))
     (crun host0 [OnAdd, SetData (DataUrl ''u'')] source0)) = 1 \<and>
   outstanding (crun host0 [OnAdd, SetData (DataUrl ''u''),
     DataResponse 0 None (Some abandoned_result), DataResponse 1 (Some ''boom'') None] source0) = 0 \<and>
   pendingLoads (crun host0 [OnAdd, SetData (DataUrl ''u''),
     DataResponse 0 None (Some abandoned_result), DataResponse 1 (Some ''boom'') None] source0) = 0 \<and>
   source_loaded (crun host0 [OnAdd, SetData (DataUrl ''u''),
     DataResponse 0 None (Some abandoned_result), DataResponse 1 (Some ''boom'') None] source0)"
  using pending_loads_counter [where H = host0 and ops = "[OnAdd, SetData (DataUrl ''u'')]"
      and ident = "''s''" and d = "DataObject (JObj [])" and mz = None and collect = False
      and vtopts = None and pl = "Some (\<lambda>zz xx yy. Some (5::nat))"
      and ids = "\<lambda>u. \<lparr>tile_z = 0, tile_x = 0, tile_y = 0\<rparr>" and t = Metadata and i = 0
      and err = None and res = "Some abandoned_result" and ?'d = nat]
    pending_loads_counter [where H = host0 and ops = "[OnAdd, SetData (DataUrl ''u''),
       DataResponse 0 None (Some abandoned_result), DataResponse 1 (Some ''boom'') None]"
      and ident = "''s''" and d = "DataObject (JObj [])" and mz = None and collect = False
      and vtopts = None and pl = "Some (\<lambda>zz xx yy. Some (5::nat))"
      and ids = "\<lambda>u. \<lparr>tile_z = 0, tile_x = 0, tile_y = 0\<rparr>" and ?'d = nat]
  by (simp add: source_defs)


section \<open>Aborting a tile\<close>

text \<open>
  C7. \<open>abortTile\<close> marks the tile aborted and clears its request; a request that was
  in flight is cancelled, its callback is unregistered, and a response to it changes
  nothing. If the callback of \<open>loadTile\<close> runs for the aborted tile all the same, it
  does not look at the response: the tile holds no data afterwards and the caller's
  callback gets \<open>null\<close>.
\<close>

theorem abortTile_ignores_completion:
  "aborted_tile (tiles (abortTile u s) u) \<and>
   tile_request (tiles (abortTile u s) u) = None \<and>
   (\<forall>i. tile_request (tiles s u) = Some i \<longrightarrow>
      sent (abortTile u s) = sent s @ [(i, CancelMsg)] \<and>
      map_of (callbacks (abortTile u s)) i = None \<and>
      cstep H (TileResponse i err d) (abortTile u s) = abortTile u s) \<and>
   effects (tile_response u r c err d (abortTile u s)) =
     effects s @ [UnloadVectorData u, Done c None] \<and>
   vector (tiles (tile_response u r c err d (abortTile u s)) u) = None \<and>
   tile_response u r c err d (abortTile u s) = tile_response u r c None None (abortTile u s)"
proof (intro conjI allI impI)
  fix i assume a: "tile_request (tiles s u) = Some i"
  then show "sent (abortTile u s) = sent s @ [(i, CancelMsg)]"
    by (simp add: abortTile_def)
  from a show m: "map_of (callbacks (abortTile u s)) i = None"
    by (simp add: abortTile_def map_of_filter_key)
  then show "cstep H (TileResponse i err d) (abortTile u s) = abortTile u s"
    by simp
next
  show "tile_response u r c err d (abortTile u s) = tile_response u r c None None (abortTile u s)"
    by (simp add: tile_response_def abortTile_def Let_def split: option.splits)
qed (simp_all add: abortTile_def tile_response_def Let_def split: option.splits)

theorem abortTile_ignores_completion_witness:
  "tile_request (tiles (crun host0 [SourceLoadTile 1 3] source0) 1) = Some 0 \<and>
   map_of (callbacks (crun host0 [SourceLoadTile 1 3] source0)) 0 = Some (TileK 1 False 3) \<and>
   sent (crun host0 [SourceLoadTile 1 3, AbortTile 1] source0) =
     [(0, TileMsg False \<lparr>tp_uid = 1, tp_canonical = \<lparr>tile_z = 0, tile_x = 0, tile_y = 0\<rparr>\<rparr>),
      (0, CancelMsg)] \<and>
   crun host0 [SourceLoadTile 1 3, AbortTile 1, TileResponse 0 None (Some 9)] source0 =
     crun host0 [SourceLoadTile 1 3, AbortTile 1] source0 \<and>
   effects (crun host0 [SourceLoadTile 1 3, AbortTile 1, TileResponse 0 None (Some 9)] source0) =
     [ConsoleLog (Some 5)]"
  using abortTile_ignores_completion [of 1 "crun host0 [SourceLoadTile 1 3] source0" host0 None
      "Some 9" False 3]
  by (simp add: source_defs)


section \<open>The external tile provider\<close>

text \<open>
  C8, as stated, fails: with \<open>planet\<close> set, \<open>loadTile\<close> of the source still sends the
  tile message to the worker, the slice that \<open>planet.getTile\<close> returns (5 here) is only
  logged, and the tile gets the data of the worker's response (9 here).
\<close>

theorem provider_bypass_counterexample:
  "planet source0 = Some (\<lambda>zz xx yy. Some 5) \<and>
   sent (crun host0 [SourceLoadTile 1 3] source0) =
     [(0, TileMsg False \<lparr>tp_uid = 1, tp_canonical = \<lparr>tile_z = 0, tile_x = 0, tile_y = 0\<rparr>\<rparr>)] \<and>
   effects (crun host0 [SourceLoadTile 1 3, TileResponse 0 None (Some 9)] source0) =
     [ConsoleLog (Some 5), UnloadVectorData 1, LoadVectorData 1 (Some 9) False, Done 3 None] \<and>
   vector (tiles (crun host0 [SourceLoadTile 1 3, TileResponse 0 None (Some 9)] source0) 1) =
     Some 9"
  by (simp add: source_defs)

text \<open>
  C8, amended: with or without \<open>planet\<close>, \<open>loadTile\<close> of the source sends the load
  or reload message to the worker and leaves the tile's data alone; with \<open>planet\<close> set
  it also asks \<open>planet.getTile\<close> for the coordinate and logs the answer. The data that
  a tile which is not aborted gets is the data of the worker's response. In the worker
  the slice comes from \<open>getTile\<close> of \<open>_vectorTilePlugin\<close>, and a coordinate for which
  \<open>getTile\<close> returns nothing gives no data and no error.
\<close>

theorem provider_only_logged:
  "sent (source_loadTile u c s) =
     sent s @ [(nextId s, TileMsg (tile_actor (tiles s u))
                  \<lparr>tp_uid = u, tp_canonical = tileID (tiles s u)\<rparr>)] \<and>
   effects (source_loadTile u c s) =
     effects s @
     (case planet s of
        None \<Rightarrow> []
      | Some get \<Rightarrow> [ConsoleLog (get (tile_z (tileID (tiles s u))) (tile_x (tileID (tiles s u)))
                        (tile_y (tileID (tiles s u))))]) \<and>
   vector (tiles (source_loadTile u c s) u) = vector (tiles s u) \<and>
   (\<not> aborted_tile (tiles s u) \<longrightarrow>
      vector (tiles (tile_response u r c None d s) u) = d) \<and>
   (getTile L p (tile_z (tp_canonical params)) (tile_x (tp_canonical params))
       (tile_y (tp_canonical params)) = None \<longrightarrow>
      loadTile L (Some p) params = (None, None)) \<and>
   (\<forall>fs. getTile L p (tile_z (tp_canonical params)) (tile_x (tp_canonical params))
       (tile_y (tp_canonical params)) = Some fs \<longrightarrow>
      loadTile L (Some p) params = (None, Some \<lparr>vectorTile = fs, rawData = vtpbf L fs\<rparr>))"
  by (simp add: source_loadTile_def tile_response_def loadTile_def Let_def split: option.splits)

theorem provider_only_logged_witness:
  "\<not> aborted_tile (tiles (crun host0 [SourceLoadTile 1 3] source0) 1) \<and>
   vector (tiles (tile_response 1 False 3 None (Some 9)
      (crun host0 [SourceLoadTile 1 3] source0)) 1) = Some 9 \<and>
   getTile lib0 7 1 0 0 = None \<and>
   loadTile lib0 (Some 7) \<lparr>tp_uid = 1, tp_canonical = \<lparr>tile_z = 1, tile_x = 0, tile_y = 0\<rparr>\<rparr> =
     (None, None) \<and>
   getTile lib0 7 0 2 3 = Some [7, 2, 3] \<and>
   loadTile lib0 (Some 7) tile0 = (None, Some \<lparr>vectorTile = [7, 2, 3], rawData = [8, 3, 4]\<rparr>)"
  using provider_only_logged [of 1 3 "crun host0 [SourceLoadTile 1 3] source0" False "Some 9"
      lib0 7 "\<lparr>tp_uid = 1, tp_canonical = \<lparr>tile_z = 1, tile_x = 0, tile_y = 0\<rparr>\<rparr>"]
    provider_only_logged [of 1 3 "crun host0 [SourceLoadTile 1 3] source0" False "Some 9"
      lib0 7 tile0]
  by (simp add: source_defs lib0_def tile0_def)


section \<open>A failed data load changes nothing\<close>




section \<open>A response for an aborted tile\<close>

text \<open>
  C10. When the callback of \<open>loadTile\<close> runs for a tile that is aborted, it unloads
  the tile's data and then calls the caller's callback once, with \<open>null\<close>; nothing is
  loaded into the tile.
\<close>

theorem aborted_completion_calls_back:
  "(aborted_tile (tiles s u) \<longrightarrow>
      effects (tile_response u r c err d s) = effects s @ [UnloadVectorData u, Done c None] \<and>
      vector (tiles (tile_response u r c err d s) u) = None \<and>
      tile_request (tiles (tile_response u r c err d s) u) = None) \<and>
   (aborted_tile (tiles s u) \<and> map_of (callbacks s) i = Some (TileK u r c) \<longrightarrow>
      effects (cstep H (TileResponse i err d) s) = effects s @ [UnloadVectorData u, Done c None] \<and>
      vector (tiles (cstep H (TileResponse i err d) s) u) = None)"
  by (simp add: tile_response_def Let_def)

theorem aborted_completion_calls_back_witness:
  "aborted_tile (tiles (crun host0 [AbortTile 1, SourceLoadTile 1 3] source0) 1) \<and>
   map_of (callbacks (crun host0 [AbortTile 1, SourceLoadTile 1 3] source0)) 0 =
     Some (TileK 1 False 3) \<and>
   effects (crun host0 [AbortTile 1, SourceLoadTile 1 3, TileResponse 0 None (Some 9)] source0) =
     [ConsoleLog (Some 5), UnloadVectorData 1, Done 3 None] \<and>
   vector (tiles (crun host0 [AbortTile 1, SourceLoadTile 1 3, TileResponse 0 None (Some 9)]
     source0) 1) = None"
  using aborted_completion_calls_back [of "crun host0 [AbortTile 1, SourceLoadTile 1 3] source0"
      1 False 3 None "Some 9" 0 host0]
  by (simp add: source_defs)

end
